theory Spec2Isabelle
  imports Main
begin

section \<open>A ReAct agent script: configuration, three tools and the interactive loop\<close>

text \<open>
  The script \<^verbatim>\<open>React+RAG.py\<close> loads three settings from the environment, defines
  three tool functions around external services, builds an agent executor from a
  third-party framework and runs a read-eval-print loop.

  The embedding follows the script. What the script obtains from outside (the
  environment, the \<^verbatim>\<open>.env\<close> file, the clock, the encyclopedia service, the chat
  completion client, the agent executor, standard input) is a parameter of the
  function that uses it. A call into a library either returns a value or raises an
  exception: its result has type \<open>exn + 'a\<close>, \<open>Inl\<close> for the exception.
\<close>

subsection \<open>Python values, exceptions and strings\<close>

text \<open>
  The values the script handles are strings and \<^verbatim>\<open>None\<close>. \<open>py_str\<close> is \<^verbatim>\<open>str(v)\<close>,
  which \<^verbatim>\<open>print\<close> and f-strings apply to their arguments.
\<close>

datatype pyval = PyNone | PyStr string

fun py_str :: "pyval \<Rightarrow> string" where
  "py_str PyNone = ''None''"
| "py_str (PyStr s) = s"

fun is_str :: "pyval \<Rightarrow> bool" where
  "is_str PyNone = False"
| "is_str (PyStr s) = True"

type_synonym dict = "(string \<times> pyval) list"

text \<open>
  Exception classes, with the base classes Python and the \<^verbatim>\<open>wikipedia\<close> package give
  them. \<open>OtherError name\<close> is any further class derived directly from
  \<^verbatim>\<open>Exception\<close> (a network, authentication or service error of a client library).
  \<^verbatim>\<open>KeyboardInterrupt\<close>, \<^verbatim>\<open>SystemExit\<close> and \<^verbatim>\<open>asyncio.CancelledError\<close> derive
  from \<^verbatim>\<open>BaseException\<close> and not from \<^verbatim>\<open>Exception\<close>. \<open>mro c\<close> lists \<open>c\<close>
  and its base classes; an \<^verbatim>\<open>except C\<close> clause catches an exception whose class has
  \<open>C\<close> in that list.
\<close>

datatype exn_class =
    BaseException
  | KeyboardInterrupt
  | SystemExit
  | CancelledError
  | Exception
  | WikipediaException
  | DisambiguationError
  | PageError
  | LookupError
  | KeyError
  | IndexError
  | EOFError
  | OtherError string

fun mro :: "exn_class \<Rightarrow> exn_class list" where
  "mro BaseException = [BaseException]"
| "mro KeyboardInterrupt = [KeyboardInterrupt, BaseException]"
| "mro SystemExit = [SystemExit, BaseException]"
| "mro CancelledError = [CancelledError, BaseException]"
| "mro Exception = [Exception, BaseException]"
| "mro WikipediaException = [WikipediaException, Exception, BaseException]"
| "mro DisambiguationError = [DisambiguationError, WikipediaException, Exception, BaseException]"
| "mro PageError = [PageError, WikipediaException, Exception, BaseException]"
| "mro LookupError = [LookupError, Exception, BaseException]"
| "mro KeyError = [KeyError, LookupError, Exception, BaseException]"
| "mro IndexError = [IndexError, LookupError, Exception, BaseException]"
| "mro EOFError = [EOFError, Exception, BaseException]"
| "mro (OtherError name) = [OtherError name, Exception, BaseException]"

definition issubclass :: "exn_class \<Rightarrow> exn_class \<Rightarrow> bool" where
  "issubclass c d = (d \<in> set (mro c))"

text \<open>An exception is its class and the text \<^verbatim>\<open>str(e)\<close> renders it as.\<close>

datatype exn = Exn (cls: exn_class) (exn_text: string)

definition isinstance :: "exn \<Rightarrow> exn_class \<Rightarrow> bool" where
  "isinstance e c = issubclass (cls e) c"

definition str_exn :: "exn \<Rightarrow> string" where
  "str_exn e = exn_text e"

text \<open>
  \<^verbatim>\<open>str(KeyError(k))\<close> is \<^verbatim>\<open>repr(k)\<close>: the key between single quotes, for the keys
  of this script (names without quotes or escapes).
\<close>

definition key_error :: "string \<Rightarrow> exn" where
  "key_error k = Exn KeyError ([CHR 0x27] @ k @ [CHR 0x27])"

definition index_error :: exn where
  "index_error = Exn IndexError ''list index out of range''"

definition eof_error :: exn where
  "eof_error = Exn EOFError ''EOF when reading a line''"

text \<open>
  \<^verbatim>\<open>str.lower()\<close> on the bytes of a string: the letters A to Z become a to z, every
  other byte stays. On text outside ASCII Python's \<^verbatim>\<open>lower\<close> does more, but it
  never yields the four letters of \<^verbatim>\<open>quit\<close> from anything but their ASCII upper
  and lower case forms, and the script uses \<^verbatim>\<open>lower\<close> only to compare with
  \<^verbatim>\<open>"quit"\<close>.
\<close>

definition py_lower_char :: "char \<Rightarrow> char" where
  "py_lower_char c =
     (let n = (of_char c :: nat) in if 65 \<le> n \<and> n \<le> 90 then char_of (n + 32) else c)"

definition py_lower :: "string \<Rightarrow> string" where
  "py_lower s = map py_lower_char s"

text \<open>
  A string is the list of the bytes of its UTF-8 encoding. \<^verbatim>\<open>str.strip()\<close>, which
  the script does not call, removes from both ends every character for which
  \<^verbatim>\<open>str.isspace\<close> holds. These are the ASCII characters 9 to 13 and 28 to 32, and
  the code points U+0085, U+00A0, U+1680, U+2000 to U+200A, U+2028, U+2029, U+202F,
  U+205F and U+3000, which UTF-8 encodes in two or three bytes. \<open>ws_len bs\<close> is the
  number of bytes of the white space character at the head of \<open>bs\<close> (0 when there is
  none), \<open>ws_len_rev\<close> is the same for the end of a string, given its bytes in
  reverse order.
\<close>

definition ascii_space :: "nat \<Rightarrow> bool" where
  "ascii_space a = ((9 \<le> a \<and> a \<le> 13) \<or> (28 \<le> a \<and> a \<le> 32))"

definition space2 :: "nat \<Rightarrow> nat \<Rightarrow> bool" where
  "space2 a b = (a = 0xC2 \<and> (b = 0x85 \<or> b = 0xA0))"

definition space3 :: "nat \<Rightarrow> nat \<Rightarrow> nat \<Rightarrow> bool" where
  "space3 a b c =
     ((a = 0xE1 \<and> b = 0x9A \<and> c = 0x80) \<or>
      (a = 0xE2 \<and> b = 0x80 \<and> ((0x80 \<le> c \<and> c \<le> 0x8A) \<or> c = 0xA8 \<or> c = 0xA9 \<or> c = 0xAF)) \<or>
      (a = 0xE2 \<and> b = 0x81 \<and> c = 0x9F) \<or>
      (a = 0xE3 \<and> b = 0x80 \<and> c = 0x80))"

fun ws_len :: "nat list \<Rightarrow> nat" where
  "ws_len [] = 0"
| "ws_len [a] = (if ascii_space a then 1 else 0)"
| "ws_len [a, b] = (if ascii_space a then 1 else if space2 a b then 2 else 0)"
| "ws_len (a # b # c # bs) =
     (if ascii_space a then 1 else if space2 a b then 2 else if space3 a b c then 3 else 0)"

fun ws_len_rev :: "nat list \<Rightarrow> nat" where
  "ws_len_rev [] = 0"
| "ws_len_rev [c] = (if ascii_space c then 1 else 0)"
| "ws_len_rev [c, b] = (if ascii_space c then 1 else if space2 b c then 2 else 0)"
| "ws_len_rev (c # b # a # bs) =
     (if ascii_space c then 1 else if space2 b c then 2 else if space3 a b c then 3 else 0)"

text \<open>
  \<open>drop_spaces len s\<close> removes white space characters from the head of \<open>s\<close> as long
  as \<open>len\<close> finds one.
\<close>

function drop_spaces :: "(nat list \<Rightarrow> nat) \<Rightarrow> string \<Rightarrow> string" where
  "drop_spaces len s =
     (let n = len (map of_char s) in
      if n = 0 \<or> s = [] then s else drop_spaces len (drop n s))"
  by pat_completeness auto
termination
  by (relation "measure (\<lambda>(len, s). length s)") auto

declare drop_spaces.simps [simp del]

definition py_strip :: "string \<Rightarrow> string" where
  "py_strip s = rev (drop_spaces ws_len_rev (rev (drop_spaces ws_len s)))"

fun join_with :: "string \<Rightarrow> string list \<Rightarrow> string" where
  "join_with sep [] = []"
| "join_with sep [x] = x"
| "join_with sep (x # y # ys) = x @ sep @ join_with sep (y # ys)"

subsection \<open>Step 1: environment variables\<close>

text \<open>
  The process environment maps names to values. \<^verbatim>\<open>load_dotenv()\<close> adds the
  settings of the \<^verbatim>\<open>.env\<close> file for the names the environment does not have yet.
  \<^verbatim>\<open>os.getenv(k)\<close> is \<^verbatim>\<open>None\<close> for a missing name; \<^verbatim>\<open>os.environ[k]\<close> raises
  \<^verbatim>\<open>KeyError\<close>. Both also return the list of the names they read, so that what a
  function reads from the environment is part of its result.
\<close>

type_synonym environ = "string \<rightharpoonup> string"

definition load_dotenv :: "environ \<Rightarrow> environ \<Rightarrow> environ" where
  "load_dotenv dotenv env = dotenv ++ env"

definition getenv :: "environ \<Rightarrow> string \<Rightarrow> string option \<times> string list" where
  "getenv env k = (env k, [k])"

definition environ_getitem :: "environ \<Rightarrow> string \<Rightarrow> (exn + string) \<times> string list" where
  "environ_getitem env k =
     (case env k of None \<Rightarrow> (Inl (key_error k), [k]) | Some v \<Rightarrow> (Inr v, [k]))"

record config =
  openai_api_key :: "string option"
  deployment :: "string option"
  endpoint :: "string option"
  api_version :: string

definition load_config :: "environ \<Rightarrow> config \<times> string list" where
  "load_config env =
     (let (k, r1) = getenv env ''AZURE_OAI_KEY'';
          (d, r2) = getenv env ''AZURE_OAI_DEPLOYMENT'';
          (e, r3) = getenv env ''AZURE_OAI_ENDPOINT''
      in (\<lparr>openai_api_key = k, deployment = d, endpoint = e, api_version = ''2024-02-01''\<rparr>,
          r1 @ r2 @ r3))"

text \<open>Lines 25 to 29: the environment after \<^verbatim>\<open>load_dotenv\<close>, the configuration, the names read.\<close>

definition startup :: "environ \<Rightarrow> environ \<Rightarrow> environ \<times> config \<times> string list" where
  "startup dotenv env0 =
     (let env = load_dotenv dotenv env0; (c, reads) = load_config env in (env, c, reads))"

subsection \<open>Step 2: the tools\<close>

text \<open>
  The date and time tool returns \<^verbatim>\<open>datetime.now().isoformat()\<close>. The clock reading
  \<open>now\<close> is a naive \<^verbatim>\<open>datetime\<close> (no time zone). \<open>isoformat\<close> is what CPython
  prints for it: \<^verbatim>\<open>%04d-%02d-%02dT%02d:%02d:%02d\<close>, followed by \<^verbatim>\<open>.%06d\<close> when the
  microsecond is not zero. \<open>fmt_d w n\<close> is \<^verbatim>\<open>"%0wd" % n\<close>: the decimal digits of
  \<open>n\<close>, padded with zeros on the left up to the width \<open>w\<close>.
\<close>

record datetime =
  year :: nat
  month :: nat
  day :: nat
  hour :: nat
  minute :: nat
  second :: nat
  microsecond :: nat

definition digit_char :: "nat \<Rightarrow> char" where
  "digit_char d = char_of (48 + d)"

fun digits_of :: "nat \<Rightarrow> string" where
  "digits_of n = (if n < 10 then [digit_char n] else digits_of (n div 10) @ [digit_char (n mod 10)])"

declare digits_of.simps [simp del]

definition fmt_d :: "nat \<Rightarrow> nat \<Rightarrow> string" where
  "fmt_d w n = (let ds = digits_of n in replicate (w - length ds) (CHR ''0'') @ ds)"

definition isoformat :: "datetime \<Rightarrow> string" where
  "isoformat dt =
     fmt_d 4 (year dt) @ ''-'' @ fmt_d 2 (month dt) @ ''-'' @ fmt_d 2 (day dt) @ ''T'' @
     fmt_d 2 (hour dt) @ '':'' @ fmt_d 2 (minute dt) @ '':'' @ fmt_d 2 (second dt) @
     (if microsecond dt = 0 then [] else ''.'' @ fmt_d 6 (microsecond dt))"

definition get_current_datetime :: "datetime \<Rightarrow> pyval list \<Rightarrow> dict \<Rightarrow> exn + pyval" where
  "get_current_datetime now args kwargs = Inr (PyStr (isoformat now))"

text \<open>
  The values a \<^verbatim>\<open>datetime\<close> object can hold, and a reader of the ISO 8601 extended
  format \<^verbatim>\<open>YYYY-MM-DDTHH:MM:SS[.ffffff]\<close>, against which the tool's result is checked.
\<close>

definition leap_year :: "nat \<Rightarrow> bool" where
  "leap_year y = (y mod 4 = 0 \<and> (y mod 100 \<noteq> 0 \<or> y mod 400 = 0))"

definition days_in_month :: "nat \<Rightarrow> nat \<Rightarrow> nat" where
  "days_in_month y m =
     (if m = 2 then (if leap_year y then 29 else 28)
      else if m = 4 \<or> m = 6 \<or> m = 9 \<or> m = 11 then 30 else 31)"

definition valid_datetime :: "datetime \<Rightarrow> bool" where
  "valid_datetime dt =
     (1 \<le> year dt \<and> year dt \<le> 9999 \<and> 1 \<le> month dt \<and> month dt \<le> 12 \<and>
      1 \<le> day dt \<and> day dt \<le> days_in_month (year dt) (month dt) \<and>
      hour dt < 24 \<and> minute dt < 60 \<and> second dt < 60 \<and> microsecond dt < 1000000)"

definition is_digit :: "char \<Rightarrow> bool" where
  "is_digit c = (let n = (of_char c :: nat) in 48 \<le> n \<and> n \<le> 57)"

definition digit_val :: "char \<Rightarrow> nat" where
  "digit_val c = of_char c - 48"

definition num_of :: "string \<Rightarrow> nat" where
  "num_of ds = foldl (\<lambda>a c. 10 * a + digit_val c) 0 ds"

definition take_num :: "nat \<Rightarrow> string \<Rightarrow> (nat \<times> string) option" where
  "take_num w s =
     (if w \<le> length s \<and> list_all is_digit (take w s) then Some (num_of (take w s), drop w s)
      else None)"

fun expect :: "char \<Rightarrow> string \<Rightarrow> string option" where
  "expect c [] = None"
| "expect c (x # xs) = (if x = c then Some xs else None)"

definition parse_fraction :: "string \<Rightarrow> nat option" where
  "parse_fraction s =
     (if s = [] then Some 0
      else case expect (CHR ''.'') s of
             None \<Rightarrow> None
           | Some s1 \<Rightarrow> (case take_num 6 s1 of
                          None \<Rightarrow> None
                        | Some (us, s2) \<Rightarrow> if s2 = [] then Some us else None))"

definition parse_iso :: "string \<Rightarrow> datetime option" where
  "parse_iso s =
     Option.bind (take_num 4 s) (\<lambda>(y, s1).
     Option.bind (expect (CHR ''-'') s1) (\<lambda>s2.
     Option.bind (take_num 2 s2) (\<lambda>(mo, s3).
     Option.bind (expect (CHR ''-'') s3) (\<lambda>s4.
     Option.bind (take_num 2 s4) (\<lambda>(d, s5).
     Option.bind (expect (CHR ''T'') s5) (\<lambda>s6.
     Option.bind (take_num 2 s6) (\<lambda>(h, s7).
     Option.bind (expect (CHR '':'') s7) (\<lambda>s8.
     Option.bind (take_num 2 s8) (\<lambda>(mi, s9).
     Option.bind (expect (CHR '':'') s9) (\<lambda>s10.
     Option.bind (take_num 2 s10) (\<lambda>(sec, s11).
     Option.bind (parse_fraction s11) (\<lambda>us.
       (let dt = \<lparr>year = y, month = mo, day = d, hour = h, minute = mi, second = sec,
                   microsecond = us\<rparr>
        in if valid_datetime dt then Some dt else None)))))))))))))"

text \<open>
  The encyclopedia tool. \<open>summary\<close> is \<^verbatim>\<open>wikipedia.summary\<close>. The three
  \<^verbatim>\<open>except\<close> clauses are tried in the order of the source; an exception none of them
  catches leaves the function.
\<close>

definition get_wikipedia_summary :: "(string \<Rightarrow> exn + string) \<Rightarrow> string \<Rightarrow> exn + pyval" where
  "get_wikipedia_summary summary query =
     (case summary query of
        Inr text \<Rightarrow> Inr (PyStr text)
      | Inl e \<Rightarrow>
          if isinstance e DisambiguationError then
            Inr (PyStr (''Disambiguation error: '' @ str_exn e))
          else if isinstance e PageError then Inr (PyStr ''Page not found.'')
          else if isinstance e Exception then Inr (PyStr (str_exn e))
          else Inl e)"

text \<open>
  The knowledge base tool. \<open>mk_client\<close> is the constructor \<^verbatim>\<open>openai.AzureOpenAI\<close>,
  \<open>create\<close> is \<^verbatim>\<open>client.chat.completions.create\<close>. The request holds the keyword
  arguments of the call; its one data source takes its end point, index name and key
  from \<^verbatim>\<open>os.environ\<close>, read in that order while the arguments are evaluated.
  \<open>search_body\<close> is the body of the \<^verbatim>\<open>try\<close>; besides its result it returns the
  names it read from the environment.
\<close>

record data_source =
  ds_type :: string
  ds_endpoint :: string
  ds_index_name :: string
  ds_auth_type :: string
  ds_auth_key :: string

record request =
  req_model :: "string option"
  req_messages :: "dict list"
  req_data_sources :: "data_source list"

record chat_message =
  content :: pyval

record choice =
  message :: chat_message

record completion =
  choices :: "choice list"

type_synonym 'c mk_client = "string option \<Rightarrow> string option \<Rightarrow> string \<Rightarrow> exn + 'c"

type_synonym 'c create = "'c \<Rightarrow> request \<Rightarrow> exn + completion"

definition search_request :: "config \<Rightarrow> string \<Rightarrow> string \<Rightarrow> string \<Rightarrow> string \<Rightarrow> request" where
  "search_request c query ep ix k =
     \<lparr>req_model = deployment c,
      req_messages = [[(''role'', PyStr ''user''), (''content'', PyStr query)]],
      req_data_sources =
        [\<lparr>ds_type = ''azure_search'', ds_endpoint = ep, ds_index_name = ix,
          ds_auth_type = ''api_key'', ds_auth_key = k\<rparr>]\<rparr>"

definition search_body ::
  "config \<Rightarrow> environ \<Rightarrow> 'c mk_client \<Rightarrow> 'c create \<Rightarrow> string \<Rightarrow> (exn + pyval) \<times> string list" where
  "search_body c env mk_client create query =
     (case mk_client (endpoint c) (openai_api_key c) (api_version c) of
        Inl e \<Rightarrow> (Inl e, [])
      | Inr client \<Rightarrow>
         (case environ_getitem env ''AZURE_SEARCH_ENDPOINT'' of
            (Inl e, r1) \<Rightarrow> (Inl e, r1)
          | (Inr ep, r1) \<Rightarrow>
             (case environ_getitem env ''AZURE_SEARCH_INDEX'' of
                (Inl e, r2) \<Rightarrow> (Inl e, r1 @ r2)
              | (Inr ix, r2) \<Rightarrow>
                 (case environ_getitem env ''AZURE_SEARCH_KEY'' of
                    (Inl e, r3) \<Rightarrow> (Inl e, r1 @ r2 @ r3)
                  | (Inr k, r3) \<Rightarrow>
                     (case create client (search_request c query ep ix k) of
                        Inl e \<Rightarrow> (Inl e, r1 @ r2 @ r3)
                      | Inr completion \<Rightarrow>
                         (case choices completion of
                            [] \<Rightarrow> (Inl index_error, r1 @ r2 @ r3)
                          | ch # _ \<Rightarrow> (Inr (content (message ch)), r1 @ r2 @ r3)))))))"

definition search_company_docs ::
  "config \<Rightarrow> environ \<Rightarrow> 'c mk_client \<Rightarrow> 'c create \<Rightarrow> string \<Rightarrow> (exn + pyval) \<times> string list" where
  "search_company_docs c env mk_client create query =
     (case search_body c env mk_client create query of
        (Inr v, reads) \<Rightarrow> (Inr v, reads)
      | (Inl e, reads) \<Rightarrow>
          (if isinstance e Exception then Inr (PyStr (''Search error: '' @ str_exn e))
           else Inl e, reads))"

subsection \<open>Step 6: the main loop\<close>

text \<open>
  The agent executor belongs to the framework. Here it is a function from its own
  state (the conversation memory and the services behind it) and the input dictionary
  to a result dictionary or an exception, and a new state. The script awaits each call
  before it goes on, so the call is an ordinary one.

  Standard input is the list of the lines still to come; \<^verbatim>\<open>input\<close> at its end raises
  \<^verbatim>\<open>EOFError\<close>. The trace records, in order, what the process writes to standard output,
  the lines it reads and the calls of the executor.
\<close>

type_synonym 'w executor = "'w \<Rightarrow> dict \<Rightarrow> (exn + dict) \<times> 'w"

datatype event = Output string | ReadLine string | Invoke dict

datatype outcome = Returned | Raised exn

record 'w pstate =
  cfg :: config
  world :: 'w
  trace :: "event list"

definition banner :: string where
  "banner = [CHR 0xF0, CHR 0x9F, CHR 0xA4, CHR 0x96] @
     '' ReAct Agent with RAG + Tools + Memory (LangChain + Azure OpenAI)''"

definition ask_prompt :: string where
  "ask_prompt = [CHR 0x0A] @ ''Ask something (or '' @ [CHR 0x27] @ ''quit'' @ [CHR 0x27] @ ''): ''"

definition response_label :: string where
  "response_label = [CHR 0x0A, CHR 0xF0, CHR 0x9F, CHR 0x93, CHR 0xA3] @ '' Response:'' @ [CHR 0x0A]"

definition py_print :: "pyval list \<Rightarrow> event" where
  "py_print args = Output (join_with '' '' (map py_str args) @ [CHR 0x0A])"

definition emit :: "event list \<Rightarrow> 'w pstate \<Rightarrow> 'w pstate" where
  "emit evs s = s\<lparr>trace := trace s @ evs\<rparr>"

fun main_loop :: "'w executor \<Rightarrow> 'w pstate \<Rightarrow> string list \<Rightarrow> outcome \<times> 'w pstate" where
  "main_loop ex s [] = (Raised eof_error, emit [Output ask_prompt] s)"
| "main_loop ex s (query # rest) =
     (let s1 = emit [Output ask_prompt, ReadLine query] s in
      if py_lower query = ''quit'' then (Returned, s1)
      else
        (case ex (world s1) [(''input'', PyStr query)] of
           (Inl e, w) \<Rightarrow> (Raised e, emit [Invoke [(''input'', PyStr query)]] (s1\<lparr>world := w\<rparr>))
         | (Inr response, w) \<Rightarrow>
             (let s2 = emit [Invoke [(''input'', PyStr query)]] (s1\<lparr>world := w\<rparr>) in
              case map_of response ''output'' of
                None \<Rightarrow> (Raised (key_error ''output''), s2)
              | Some v \<Rightarrow> main_loop ex (emit [py_print [PyStr response_label, v]] s2) rest)))"

definition main :: "'w executor \<Rightarrow> 'w pstate \<Rightarrow> string list \<Rightarrow> outcome \<times> 'w pstate" where
  "main ex s lines = main_loop ex (emit [py_print [PyStr banner]] s) lines"

text \<open>
  The script from its first line to the end of the process. \<open>assemble\<close> stands for
  steps 3 to 5 (the prompt, the model handle, the memory, the agent and its executor),
  which give the executor's first state or raise. An exception that nothing catches
  ends the process with exit status 1; a return from \<^verbatim>\<open>main\<close> ends it with 0.
  The result is the exit status, the configuration as it is when the process ends, and
  the trace.
\<close>

definition exit_status :: "outcome \<Rightarrow> nat" where
  "exit_status r = (case r of Returned \<Rightarrow> 0 | Raised e \<Rightarrow> 1)"

definition script ::
  "environ \<Rightarrow> environ \<Rightarrow> (config \<Rightarrow> exn + 'w) \<Rightarrow> 'w executor \<Rightarrow> string list \<Rightarrow>
     nat \<times> config \<times> event list" where
  "script dotenv env0 assemble ex lines =
     (let (env, c, reads) = startup dotenv env0 in
      case assemble c of
        Inl e \<Rightarrow> (exit_status (Raised e), c, [])
      | Inr w \<Rightarrow>
          (let (r, s) = main ex \<lparr>cfg = c, world = w, trace = []\<rparr> lines
           in (exit_status r, cfg s, trace s)))"

text \<open>
  Two readings of a trace and of a run, used to state what the loop does. \<open>invoked\<close>
  lists the executor's inputs in a trace, in order. \<open>feed ex s ls\<close> is the state of
  the loop after the lines \<open>ls\<close> when none of them is the quit command and the
  executor answers each with a dictionary that has an output field; otherwise it is
  \<open>None\<close>.
\<close>

fun invoked :: "event list \<Rightarrow> dict list" where
  "invoked [] = []"
| "invoked (Invoke d # es) = d # invoked es"
| "invoked (e # es) = invoked es"

fun feed :: "'w executor \<Rightarrow> 'w pstate \<Rightarrow> string list \<Rightarrow> 'w pstate option" where
  "feed ex s [] = Some s"
| "feed ex s (l # ls) =
     (if py_lower l = ''quit'' then None
      else
        (case ex (world s) [(''input'', PyStr l)] of
           (Inl e, w) \<Rightarrow> None
         | (Inr response, w) \<Rightarrow>
             (case map_of response ''output'' of
                None \<Rightarrow> None
              | Some v \<Rightarrow>
                  feed ex
                    ((emit [Output ask_prompt, ReadLine l, Invoke [(''input'', PyStr l)],
                            py_print [PyStr response_label, v]] s)\<lparr>world := w\<rparr>) ls)))"

subsection \<open>Sample inputs\<close>

text \<open>
  Concrete stand-ins for the outside world, at which the theorems below are
  instantiated: the settings of the comment at the head of the script, an executor that
  answers every input, one that raises from its second call on, an encyclopedia with one ambiguous and one
  missing title, a client constructor that needs a key, a completion service whose
  answer has no content, one whose answer names the end point it was asked to search,
  an environment whose search settings differ from those of start-up, and a lookup
  and a completion call that are interrupted from the keyboard.
\<close>

definition sample_dotenv :: environ where
  "sample_dotenv = map_of
     [(''AZURE_OAI_ENDPOINT'', ''https://oai.example/''),
      (''AZURE_OAI_KEY'', ''oai-key''),
      (''AZURE_OAI_DEPLOYMENT'', ''gpt-4o''),
      (''AZURE_SEARCH_ENDPOINT'', ''https://search.example/''),
      (''AZURE_SEARCH_KEY'', ''search-key''),
      (''AZURE_SEARCH_INDEX'', ''margies-index'')]"

definition sample_cfg :: config where
  "sample_cfg = \<lparr>openai_api_key = Some ''oai-key'', deployment = Some ''gpt-4o'',
     endpoint = Some ''https://oai.example/'', api_version = ''2024-02-01''\<rparr>"

definition sample_state :: "nat pstate" where
  "sample_state = \<lparr>cfg = sample_cfg, world = 0, trace = []\<rparr>"

definition echo_executor :: "nat executor" where
  "echo_executor n d = (Inr [(''input'', PyStr ''asked''), (''output'', PyStr ''answer'')], Suc n)"

definition flaky_executor :: "nat executor" where
  "flaky_executor n d =
     (if n < 1 then (Inr [(''output'', PyStr ''answer'')], Suc n)
      else (Inl (Exn (OtherError ''RateLimitError'') ''rate limit reached''), n))"

definition sample_summary :: "string \<Rightarrow> exn + string" where
  "sample_summary q =
     (if q = ''Mercury'' then Inl (Exn DisambiguationError ''Mercury may refer to: planet, element'')
      else if q = ''qqqq'' then Inl (Exn PageError ''Page id qqqq does not match any pages.'')
      else if q = ''offline'' then Inl (Exn (OtherError ''ConnectionError'') ''connection failed'')
      else Inr ''A summary.'')"

definition interrupted_summary :: "string \<Rightarrow> exn + string" where
  "interrupted_summary q = Inl (Exn KeyboardInterrupt [])"

definition interrupted_create :: "nat create" where
  "interrupted_create cl rq = Inl (Exn KeyboardInterrupt [])"

definition sample_mk_client :: "nat mk_client" where
  "sample_mk_client ep key ver =
     (case key of None \<Rightarrow> Inl (Exn (OtherError ''OpenAIError'') ''Missing credentials'')
      | Some k \<Rightarrow> Inr 0)"

definition null_content_create :: "nat create" where
  "null_content_create cl rq = Inr \<lparr>choices = [\<lparr>message = \<lparr>content = PyNone\<rparr>\<rparr>]\<rparr>"

definition sample_create :: "nat create" where
  "sample_create cl rq =
     (case req_data_sources rq of
        [] \<Rightarrow> Inl (Exn (OtherError ''BadRequestError'') ''no data source'')
      | ds # _ \<Rightarrow>
          Inr \<lparr>choices = [\<lparr>message = \<lparr>content = PyStr (''searched '' @ ds_endpoint ds)\<rparr>\<rparr>]\<rparr>)"

definition changed_env :: environ where
  "changed_env = map_of
     [(''AZURE_SEARCH_ENDPOINT'', ''https://other.example/''),
      (''AZURE_SEARCH_KEY'', ''other-key''),
      (''AZURE_SEARCH_INDEX'', ''other-index'')]"

definition sample_now :: datetime where
  "sample_now = \<lparr>year = 2026, month = 11, day = 3, hour = 7, minute = 5, second = 9,
     microsecond = 120\<rparr>"

section \<open>Properties\<close>

subsection \<open>Lower case and the quit command\<close>

lemma lower_char_cases:
  "py_lower_char c = d \<longleftrightarrow>
     (if 65 \<le> (of_char c :: nat) \<and> (of_char c :: nat) \<le> 90 then (of_char d :: nat) = of_char c + 32
      else c = d)"
proof (cases "65 \<le> (of_char c :: nat) \<and> (of_char c :: nat) \<le> 90")
  case True
  then have "take_bit 8 (of_char c + (32::nat)) = of_char c + 32"
    by (simp add: take_bit_eq_mod)
  with True show ?thesis
    by (auto simp: py_lower_char_def Let_def char_of_eq_iff)
next
  case False
  then show ?thesis by (auto simp: py_lower_char_def Let_def)
qed

lemma char_eq_code: "c = d \<longleftrightarrow> (of_char c :: nat) = of_char d"
  by simp

lemma lower_q: "py_lower_char c = CHR ''q'' \<longleftrightarrow> c = CHR ''q'' \<or> c = CHR ''Q''"
  unfolding lower_char_cases by (auto simp: char_eq_code[of c])
lemma lower_u: "py_lower_char c = CHR ''u'' \<longleftrightarrow> c = CHR ''u'' \<or> c = CHR ''U''"
  unfolding lower_char_cases by (auto simp: char_eq_code[of c])
lemma lower_i: "py_lower_char c = CHR ''i'' \<longleftrightarrow> c = CHR ''i'' \<or> c = CHR ''I''"
  unfolding lower_char_cases by (auto simp: char_eq_code[of c])
lemma lower_t: "py_lower_char c = CHR ''t'' \<longleftrightarrow> c = CHR ''t'' \<or> c = CHR ''T''"
  unfolding lower_char_cases by (auto simp: char_eq_code[of c])

lemma py_lower_quitD:
  assumes "py_lower l = ''quit''"
  obtains a b c d where "l = [a, b, c, d]"
    and "a = CHR ''q'' \<or> a = CHR ''Q''" and "b = CHR ''u'' \<or> b = CHR ''U''"
    and "c = CHR ''i'' \<or> c = CHR ''I''" and "d = CHR ''t'' \<or> d = CHR ''T''"
proof -
  from assms have m: "map py_lower_char l = [CHR ''q'', CHR ''u'', CHR ''i'', CHR ''t'']"
    by (simp add: py_lower_def)
  then obtain a l1 where l: "l = a # l1" and a: "py_lower_char a = CHR ''q''"
    and m1: "map py_lower_char l1 = [CHR ''u'', CHR ''i'', CHR ''t'']"
    by (cases l) simp_all
  from m1 obtain b l2 where l1: "l1 = b # l2" and b: "py_lower_char b = CHR ''u''"
    and m2: "map py_lower_char l2 = [CHR ''i'', CHR ''t'']"
    by (cases l1) simp_all
  from m2 obtain c l3 where l2: "l2 = c # l3" and c: "py_lower_char c = CHR ''i''"
    and m3: "map py_lower_char l3 = [CHR ''t'']"
    by (cases l2) simp_all
  from m3 obtain d where l3: "l3 = [d]" and d: "py_lower_char d = CHR ''t''"
    by (cases l3) simp_all
  show thesis
    using that[of a b c d] l l1 l2 l3 a b c d
    by (simp only: lower_q lower_u lower_i lower_t)
qed

lemma py_lower_quitI:
  assumes "a = CHR ''q'' \<or> a = CHR ''Q''" and "b = CHR ''u'' \<or> b = CHR ''U''"
    and "c = CHR ''i'' \<or> c = CHR ''I''" and "d = CHR ''t'' \<or> d = CHR ''T''"
  shows "py_lower [a, b, c, d] = ''quit''"
  using assms by (simp add: py_lower_def lower_q lower_u lower_i lower_t)

lemma length_py_lower: "length (py_lower l) = length l"
  by (simp add: py_lower_def)

lemma drop_spaces_suffix: "\<exists>pre. s = pre @ drop_spaces len s"
proof (induction len s rule: drop_spaces.induct)
  case (1 len s)
  let ?n = "len (map of_char s)"
  show ?case
  proof (cases "?n = 0 \<or> s = []")
    case True
    then have "drop_spaces len s = s"
      by (subst drop_spaces.simps) (simp add: Let_def)
    then show ?thesis by simp
  next
    case False
    from 1[OF refl False] obtain pre where pre: "drop ?n s = pre @ drop_spaces len (drop ?n s)" ..
    have "s = take ?n s @ drop ?n s" by simp
    with pre have "s = (take ?n s @ pre) @ drop_spaces len (drop ?n s)" by simp
    moreover have "drop_spaces len s = drop_spaces len (drop ?n s)"
      using False by (subst drop_spaces.simps) (simp add: Let_def)
    ultimately show ?thesis by metis
  qed
qed

lemma py_strip_infix: "\<exists>pre suf. s = pre @ py_strip s @ suf"
proof -
  obtain pre where pre: "s = pre @ drop_spaces ws_len s"
    using drop_spaces_suffix by blast
  let ?t = "drop_spaces ws_len s"
  obtain p2 where "rev ?t = p2 @ drop_spaces ws_len_rev (rev ?t)"
    using drop_spaces_suffix by blast
  then have "rev (rev ?t) = rev (p2 @ drop_spaces ws_len_rev (rev ?t))" by simp
  then have "?t = py_strip s @ rev p2" by (simp add: py_strip_def)
  with pre have "s = pre @ py_strip s @ rev p2" by simp
  then show ?thesis by blast
qed

lemma surrounded_not_quit:
  assumes "py_lower core = ''quit''" and "pre @ suf \<noteq> []"
  shows "py_lower (pre @ core @ suf) \<noteq> ''quit''"
proof
  assume "py_lower (pre @ core @ suf) = ''quit''"
  then have "length (py_lower (pre @ core @ suf)) = 4" by simp
  moreover from assms(1) have "length (py_lower core) = 4" by simp
  ultimately have "length pre + length suf = 0" by (simp add: length_py_lower)
  with assms(2) show False by simp
qed

lemma strip_changes_not_quit:
  assumes "py_lower (py_strip line) = ''quit''" and "py_strip line \<noteq> line"
  shows "py_lower line \<noteq> ''quit''"
proof -
  obtain pre suf where l: "line = pre @ py_strip line @ suf"
    using py_strip_infix by blast
  with assms(2) have "pre @ suf \<noteq> []" by auto
  from surrounded_not_quit[OF assms(1) this] l show ?thesis by simp
qed

lemma emit_emit [simp]: "emit b (emit a s) = emit (a @ b) s"
  by (simp add: emit_def)

lemma world_emit [simp]: "world (emit evs s) = world s"
  by (simp add: emit_def)

lemma cfg_emit [simp]: "cfg (emit evs s) = cfg s"
  by (simp add: emit_def)

lemma trace_emit [simp]: "trace (emit evs s) = trace s @ evs"
  by (simp add: emit_def)

lemma emit_world_update [simp]: "emit evs (s\<lparr>world := w\<rparr>) = (emit evs s)\<lparr>world := w\<rparr>"
  by (simp add: emit_def)

lemma main_loop_quit:
  "py_lower line = ''quit'' \<Longrightarrow>
     main_loop ex s (line # rest) = (Returned, emit [Output ask_prompt, ReadLine line] s)"
  by simp

lemma main_loop_submit:
  "py_lower line \<noteq> ''quit'' \<Longrightarrow> ex (world s) [(''input'', PyStr line)] = (Inr response, w) \<Longrightarrow>
   map_of response ''output'' = Some v \<Longrightarrow>
     main_loop ex s (line # rest) =
       main_loop ex
         ((emit [Output ask_prompt, ReadLine line, Invoke [(''input'', PyStr line)],
                py_print [PyStr response_label, v]] s)\<lparr>world := w\<rparr>) rest"
  by (simp add: Let_def)

lemma main_loop_raise:
  "py_lower line \<noteq> ''quit'' \<Longrightarrow> ex (world s) [(''input'', PyStr line)] = (Inl e, w) \<Longrightarrow>
     main_loop ex s (line # rest) =
       (Raised e, (emit [Output ask_prompt, ReadLine line, Invoke [(''input'', PyStr line)]] s)\<lparr>world := w\<rparr>)"
  by (simp add: Let_def)

lemma invoked_append: "invoked (xs @ ys) = invoked xs @ invoked ys"
  by (induction xs rule: invoked.induct) simp_all

lemma invoked_print [simp]: "invoked [py_print args] = []"
  by (simp add: py_print_def)

lemma main_loop_feed:
  "feed ex s pre = Some s1 \<Longrightarrow> main_loop ex s (pre @ rest) = main_loop ex s1 rest"
proof (induction pre arbitrary: s)
  case Nil
  then show ?case by simp
next
  case (Cons l ls)
  from Cons.prems have nq: "py_lower l \<noteq> ''quit''" by (simp split: if_splits)
  obtain r w where ex: "ex (world s) [(''input'', PyStr l)] = (r, w)"
    by (cases "ex (world s) [(''input'', PyStr l)]")
  from Cons.prems nq ex obtain response where r: "r = Inr response"
    by (cases r) simp_all
  from Cons.prems nq ex r obtain v where v: "map_of response ''output'' = Some v"
    by (cases "map_of response ''output''") simp_all
  let ?s' = "(emit [Output ask_prompt, ReadLine l, Invoke [(''input'', PyStr l)],
                py_print [PyStr response_label, v]] s)\<lparr>world := w\<rparr>"
  from Cons.prems nq ex r v have "feed ex ?s' ls = Some s1" by simp
  then have "main_loop ex ?s' (ls @ rest) = main_loop ex s1 rest" by (rule Cons.IH)
  moreover have "main_loop ex s ((l # ls) @ rest) = main_loop ex ?s' (ls @ rest)"
    using main_loop_submit[OF nq _ v, of ex s w "ls @ rest"] ex r by simp
  ultimately show ?case by simp
qed

lemma feed_invoked:
  "feed ex s pre = Some s1 \<Longrightarrow>
     invoked (trace s1) = invoked (trace s) @ map (\<lambda>l. [(''input'', PyStr l)]) pre"
proof (induction pre arbitrary: s)
  case Nil
  then show ?case by simp
next
  case (Cons l ls)
  from Cons.prems have nq: "py_lower l \<noteq> ''quit''" by (simp split: if_splits)
  obtain r w where ex: "ex (world s) [(''input'', PyStr l)] = (r, w)"
    by (cases "ex (world s) [(''input'', PyStr l)]")
  from Cons.prems nq ex obtain response where r: "r = Inr response"
    by (cases r) simp_all
  from Cons.prems nq ex r obtain v where v: "map_of response ''output'' = Some v"
    by (cases "map_of response ''output''") simp_all
  let ?s' = "(emit [Output ask_prompt, ReadLine l, Invoke [(''input'', PyStr l)],
                py_print [PyStr response_label, v]] s)\<lparr>world := w\<rparr>"
  from Cons.prems nq ex r v have "feed ex ?s' ls = Some s1" by simp
  then have "invoked (trace s1) = invoked (trace ?s') @ map (\<lambda>l. [(''input'', PyStr l)]) ls"
    by (rule Cons.IH)
  then show ?case by (simp add: invoked_append py_print_def)
qed

lemma main_loop_cfg: "cfg (snd (main_loop ex s lines)) = cfg s"
proof (induction lines arbitrary: s)
  case Nil
  show ?case by simp
next
  case (Cons query rest)
  show ?case
  proof (cases "py_lower query = ''quit''")
    case True
    then show ?thesis by simp
  next
    case False
    obtain r w where ex: "ex (world s) [(''input'', PyStr query)] = (r, w)"
      by (cases "ex (world s) [(''input'', PyStr query)]")
    show ?thesis
    proof (cases r)
      case (Inl e)
      with False ex show ?thesis by (simp add: main_loop_raise)
    next
      case (Inr response)
      show ?thesis
      proof (cases "map_of response ''output''")
        case None
        with False ex Inr show ?thesis by (simp add: Let_def)
      next
        case (Some v)
        with False ex Inr show ?thesis by (simp add: main_loop_submit Cons.IH)
      qed
    qed
  qed
qed

lemma main_loop_cfg_pair: "main_loop ex s lines = (r, s') \<Longrightarrow> cfg s' = cfg s"
  using main_loop_cfg[of ex s lines] by simp

lemma main_loop_trace: "\<exists>tl. trace (snd (main_loop ex s lines)) = trace s @ tl"
proof (induction lines arbitrary: s)
  case Nil
  show ?case by simp
next
  case (Cons query rest)
  show ?case
  proof (cases "py_lower query = ''quit''")
    case True
    then show ?thesis by simp
  next
    case False
    obtain r w where ex: "ex (world s) [(''input'', PyStr query)] = (r, w)"
      by (cases "ex (world s) [(''input'', PyStr query)]")
    show ?thesis
    proof (cases r)
      case (Inl e)
      with False ex show ?thesis by (simp add: Let_def)
    next
      case (Inr response)
      show ?thesis
      proof (cases "map_of response ''output''")
        case None
        with False ex Inr show ?thesis by (simp add: Let_def)
      next
        case (Some v)
        let ?s' = "(emit [Output ask_prompt, ReadLine query, Invoke [(''input'', PyStr query)],
                py_print [PyStr response_label, v]] s)\<lparr>world := w\<rparr>"
        from Cons.IH[of ?s'] obtain tl where "trace (snd (main_loop ex ?s' rest)) = trace ?s' @ tl"
          by blast
        with False ex Inr Some show ?thesis by (simp add: Let_def)
      qed
    qed
  qed
qed

lemma main_loop_invokes:
  assumes nq: "py_lower line \<noteq> ''quit''"
  shows "\<exists>tl. trace (snd (main_loop ex s (line # rest))) =
           trace s @ [Output ask_prompt, ReadLine line, Invoke [(''input'', PyStr line)]] @ tl"
proof -
  obtain r w where ex: "ex (world s) [(''input'', PyStr line)] = (r, w)"
    by (cases "ex (world s) [(''input'', PyStr line)]")
  show ?thesis
  proof (cases r)
    case (Inl e)
    with nq ex show ?thesis by (simp add: Let_def)
  next
    case (Inr response)
    show ?thesis
    proof (cases "map_of response ''output''")
      case None
      with nq ex Inr show ?thesis by (simp add: Let_def)
    next
      case (Some v)
      let ?s' = "(emit [Output ask_prompt, ReadLine line, Invoke [(''input'', PyStr line)],
                py_print [PyStr response_label, v]] s)\<lparr>world := w\<rparr>"
      obtain tl where "trace (snd (main_loop ex ?s' rest)) = trace ?s' @ tl"
        using main_loop_trace[of ex ?s' rest] by blast
      with nq ex Inr Some show ?thesis by (simp add: Let_def)
    qed
  qed
qed


lemma startup_eq:
  "startup dotenv env0 =
     (load_dotenv dotenv env0, fst (load_config (load_dotenv dotenv env0)),
      snd (load_config (load_dotenv dotenv env0)))"
  by (simp add: startup_def Let_def case_prod_beta)

lemma script_unfold:
  "startup dotenv env0 = (env, c, reads) \<Longrightarrow> assemble c = Inr w0 \<Longrightarrow>
     script dotenv env0 assemble ex lines =
       (exit_status (fst (main ex \<lparr>cfg = c, world = w0, trace = []\<rparr> lines)),
        cfg (snd (main ex \<lparr>cfg = c, world = w0, trace = []\<rparr> lines)),
        trace (snd (main ex \<lparr>cfg = c, world = w0, trace = []\<rparr> lines)))"
  by (simp add: script_def case_prod_beta)

lemma main_cfg: "cfg (snd (main ex s lines)) = cfg s"
  by (simp add: main_def main_loop_cfg)

lemma script_cfg:
  "fst (snd (script dotenv env0 assemble ex lines)) = fst (load_config (load_dotenv dotenv env0))"
proof (cases "assemble (fst (load_config (load_dotenv dotenv env0)))")
  case (Inl e)
  then show ?thesis by (simp add: script_def startup_eq case_prod_beta)
next
  case (Inr w0)
  then show ?thesis by (simp add: script_unfold[OF startup_eq] main_cfg)
qed

text \<open>
  Claim C1. For every line the loop reads: when the line in lower case is \<^verbatim>\<open>quit\<close>
  the loop returns at once, and neither the executor's state nor the list of its calls
  changes; for any other line, when the executor returns a dictionary with an output
  field, the loop has called it once with \<^verbatim>\<open>{"input": line}\<close>, has printed the
  label and the value of the output field, and goes on with the next line. Over a whole
  run that ends with the quit command, the executor's calls are the lines before it,
  one call each, in order.
\<close>
theorem interactive_loop_line:
  "(py_lower line = ''quit'' \<longrightarrow>
      main_loop ex s (line # rest) = (Returned, emit [Output ask_prompt, ReadLine line] s) \<and>
      invoked (trace (snd (main_loop ex s (line # rest)))) = invoked (trace s) \<and>
      world (snd (main_loop ex s (line # rest))) = world s) \<and>
   (py_lower line \<noteq> ''quit'' \<and> ex (world s) [(''input'', PyStr line)] = (Inr response, w) \<and>
    map_of response ''output'' = Some v \<longrightarrow>
      main_loop ex s (line # rest) =
        main_loop ex
          ((emit [Output ask_prompt, ReadLine line, Invoke [(''input'', PyStr line)],
                  Output (response_label @ '' '' @ py_str v @ [CHR 0x0A])] s)\<lparr>world := w\<rparr>) rest) \<and>
   (feed ex s pre = Some s1 \<and> py_lower line = ''quit'' \<longrightarrow>
      main_loop ex s (pre @ line # rest) = (Returned, emit [Output ask_prompt, ReadLine line] s1) \<and>
      invoked (trace (snd (main_loop ex s (pre @ line # rest)))) =
        invoked (trace s) @ map (\<lambda>l. [(''input'', PyStr l)]) pre)"
proof (intro conjI impI)
  assume q: "py_lower line = ''quit''"
  then show "main_loop ex s (line # rest) = (Returned, emit [Output ask_prompt, ReadLine line] s)"
    by (rule main_loop_quit)
  then show "invoked (trace (snd (main_loop ex s (line # rest)))) = invoked (trace s)"
    by (simp add: invoked_append)
  from q show "world (snd (main_loop ex s (line # rest))) = world s"
    by (simp add: main_loop_quit)
next
  assume "py_lower line \<noteq> ''quit'' \<and> ex (world s) [(''input'', PyStr line)] = (Inr response, w) \<and>
    map_of response ''output'' = Some v"
  then show "main_loop ex s (line # rest) =
        main_loop ex
          ((emit [Output ask_prompt, ReadLine line, Invoke [(''input'', PyStr line)],
                  Output (response_label @ '' '' @ py_str v @ [CHR 0x0A])] s)\<lparr>world := w\<rparr>) rest"
    using main_loop_submit[of line ex s response w v rest] by (simp add: py_print_def)
next
  assume a: "feed ex s pre = Some s1 \<and> py_lower line = ''quit''"
  then show m: "main_loop ex s (pre @ line # rest) = (Returned, emit [Output ask_prompt, ReadLine line] s1)"
    by (simp add: main_loop_feed main_loop_quit)
  from a have f: "feed ex s pre = Some s1" by simp
  show "invoked (trace (snd (main_loop ex s (pre @ line # rest)))) =
        invoked (trace s) @ map (\<lambda>l. [(''input'', PyStr l)]) pre"
    by (simp add: m invoked_append feed_invoked[OF f])
qed

theorem interactive_loop_line_witness:
  "py_lower ''QuIt'' = ''quit'' \<and>
   main_loop echo_executor sample_state [''QuIt'', ''later''] =
     (Returned, emit [Output ask_prompt, ReadLine ''QuIt''] sample_state) \<and>
   py_lower ''hello'' \<noteq> ''quit'' \<and>
   main_loop echo_executor sample_state [''hello'', ''quit''] =
     main_loop echo_executor
       ((emit [Output ask_prompt, ReadLine ''hello'', Invoke [(''input'', PyStr ''hello'')],
               Output (response_label @ '' answer'' @ [CHR 0x0A])] sample_state)\<lparr>world := 1\<rparr>)
       [''quit''] \<and>
   main_loop echo_executor sample_state [''hello'', ''quit''] =
     (Returned,
      emit [Output ask_prompt, ReadLine ''quit'']
        ((emit [Output ask_prompt, ReadLine ''hello'', Invoke [(''input'', PyStr ''hello'')],
                Output (response_label @ '' answer'' @ [CHR 0x0A])] sample_state)\<lparr>world := 1\<rparr>)) \<and>
   invoked (trace (snd (main_loop echo_executor sample_state [''hello'', ''quit'']))) =
     [[(''input'', PyStr ''hello'')]]"
proof -
  let ?resp = "[(''input'', PyStr ''asked''), (''output'', PyStr ''answer'')]"
  let ?s1 = "(emit [Output ask_prompt, ReadLine ''hello'', Invoke [(''input'', PyStr ''hello'')],
               Output (response_label @ '' answer'' @ [CHR 0x0A])] sample_state)\<lparr>world := 1\<rparr>"
  have q: "py_lower ''QuIt'' = ''quit''" by (simp add: py_lower_quitI)
  have q2: "py_lower ''quit'' = ''quit''" by (simp add: py_lower_quitI)
  have h: "py_lower ''hello'' \<noteq> ''quit''" by (simp add: py_lower_def)
  have e: "echo_executor (world sample_state) [(''input'', PyStr ''hello'')] = (Inr ?resp, 1)"
    by (simp add: echo_executor_def sample_state_def)
  have m: "map_of ?resp ''output'' = Some (PyStr ''answer'')" by simp
  have f: "feed echo_executor sample_state [''hello''] = Some ?s1"
    using h e by (simp add: py_print_def)
  have i: "invoked (trace sample_state) = []" by (simp add: sample_state_def)
  note t1 = interactive_loop_line[where line = "''QuIt''" and ex = echo_executor
      and s = sample_state and rest = "[''later'']"]
  note t2 = interactive_loop_line[where line = "''hello''" and ex = echo_executor
      and s = sample_state and rest = "[''quit'']" and response = ?resp and w = 1
      and v = "PyStr ''answer''"]
  note t3 = interactive_loop_line[where line = "''quit''" and ex = echo_executor
      and s = sample_state and pre = "[''hello'']" and ?s1.0 = ?s1 and rest = "[]"]
  from t1[THEN conjunct1, THEN mp, OF q]
  have a: "main_loop echo_executor sample_state [''QuIt'', ''later''] =
     (Returned, emit [Output ask_prompt, ReadLine ''QuIt''] sample_state)" by blast
  from t2[THEN conjunct2, THEN conjunct1, THEN mp, OF conjI[OF h conjI[OF e m]]]
  have b: "main_loop echo_executor sample_state [''hello'', ''quit''] =
     main_loop echo_executor ?s1 [''quit'']" by simp
  note t3' = t3[THEN conjunct2, THEN conjunct2, THEN mp, OF conjI[OF f q2]]
  from t3' have c: "main_loop echo_executor sample_state [''hello'', ''quit''] =
     (Returned, emit [Output ask_prompt, ReadLine ''quit''] ?s1)" by simp
  from t3' have "invoked (trace (snd (main_loop echo_executor sample_state ([''hello''] @ [''quit''])))) =
     invoked (trace sample_state) @ map (\<lambda>l. [(''input'', PyStr l)]) [''hello'']" by blast
  then have d: "invoked (trace (snd (main_loop echo_executor sample_state [''hello'', ''quit'']))) =
     [[(''input'', PyStr ''hello'')]]" by (simp only: i append_Nil append_Cons list.map)
  from q a h b c d show ?thesis by blast
qed



text \<open>
  Claim C9. The quit check does not strip the line. A line that is \<^verbatim>\<open>quit\<close> only
  once \<^verbatim>\<open>strip\<close> has removed white space around it, and more generally any line
  that has something before or after a spelling of \<^verbatim>\<open>quit\<close>, does not end the
  loop: the executor is called with the line as it was typed, and when it answers the
  loop prints the answer and goes on with the next line.
\<close>
theorem quit_check_does_not_strip:
  "(py_lower (py_strip line) = ''quit'' \<and> py_strip line \<noteq> line) \<or>
   (line = pre @ core @ suf \<and> py_lower core = ''quit'' \<and> pre @ suf \<noteq> []) \<Longrightarrow>
     py_lower line \<noteq> ''quit'' \<and>
     main_loop ex s (line # rest) \<noteq> (Returned, emit [Output ask_prompt, ReadLine line] s) \<and>
     (\<exists>tl. trace (snd (main_loop ex s (line # rest))) =
         trace s @ [Output ask_prompt, ReadLine line, Invoke [(''input'', PyStr line)]] @ tl) \<and>
     (ex (world s) [(''input'', PyStr line)] = (Inr response, w) \<and>
      map_of response ''output'' = Some v \<longrightarrow>
        main_loop ex s (line # rest) =
          main_loop ex
            ((emit [Output ask_prompt, ReadLine line, Invoke [(''input'', PyStr line)],
                    Output (response_label @ '' '' @ py_str v @ [CHR 0x0A])] s)\<lparr>world := w\<rparr>) rest)"
proof -
  assume h: "(py_lower (py_strip line) = ''quit'' \<and> py_strip line \<noteq> line) \<or>
   (line = pre @ core @ suf \<and> py_lower core = ''quit'' \<and> pre @ suf \<noteq> [])"
  have nq: "py_lower line \<noteq> ''quit''"
    using h strip_changes_not_quit[of line] surrounded_not_quit[of core pre suf] by blast
  obtain tl where tl: "trace (snd (main_loop ex s (line # rest))) =
         trace s @ [Output ask_prompt, ReadLine line, Invoke [(''input'', PyStr line)]] @ tl"
    using main_loop_invokes[OF nq, of ex s rest] by blast
  have nr: "main_loop ex s (line # rest) \<noteq> (Returned, emit [Output ask_prompt, ReadLine line] s)"
  proof
    assume "main_loop ex s (line # rest) = (Returned, emit [Output ask_prompt, ReadLine line] s)"
    with tl show False by simp
  qed
  have go: "ex (world s) [(''input'', PyStr line)] = (Inr response, w) \<and>
      map_of response ''output'' = Some v \<longrightarrow>
        main_loop ex s (line # rest) =
          main_loop ex
            ((emit [Output ask_prompt, ReadLine line, Invoke [(''input'', PyStr line)],
                    Output (response_label @ '' '' @ py_str v @ [CHR 0x0A])] s)\<lparr>world := w\<rparr>) rest"
    using main_loop_submit[OF nq, of ex s response w v rest] by (simp add: py_print_def)
  from nq nr tl go show ?thesis by blast
qed

theorem quit_check_does_not_strip_witness:
  "py_strip ''quit '' = ''quit'' \<and>
   py_strip ([CHR 0x09] @ ''Quit'' @ [CHR 0xC2, CHR 0xA0, CHR 0xE2, CHR 0x80, CHR 0x83]) = ''Quit'' \<and>
   py_lower ''quit '' \<noteq> ''quit'' \<and>
   main_loop echo_executor sample_state [''quit '', ''quit''] =
     main_loop echo_executor
       ((emit [Output ask_prompt, ReadLine ''quit '', Invoke [(''input'', PyStr ''quit '')],
               Output (response_label @ '' answer'' @ [CHR 0x0A])] sample_state)\<lparr>world := 1\<rparr>)
       [''quit''] \<and>
   py_lower (''quit'' @ [CHR 0xA0]) \<noteq> ''quit'' \<and>
   (\<exists>tl. trace (snd (main_loop echo_executor sample_state [''quit'' @ [CHR 0xA0], ''quit''])) =
      trace sample_state @
      [Output ask_prompt, ReadLine (''quit'' @ [CHR 0xA0]),
       Invoke [(''input'', PyStr (''quit'' @ [CHR 0xA0]))]] @ tl)"
proof -
  let ?resp = "[(''input'', PyStr ''asked''), (''output'', PyStr ''answer'')]"
  have s: "py_strip ''quit '' = ''quit''" by code_simp
  have s2: "py_strip ([CHR 0x09] @ ''Quit'' @ [CHR 0xC2, CHR 0xA0, CHR 0xE2, CHR 0x80, CHR 0x83]) = ''Quit''"
    by code_simp
  have q: "py_lower ''quit'' = ''quit''" by (simp add: py_lower_quitI)
  have n: "py_strip ''quit '' \<noteq> ''quit ''" by (simp add: s)
  from s q have p: "py_lower (py_strip ''quit '') = ''quit''" by simp
  have e: "echo_executor (world sample_state) [(''input'', PyStr ''quit '')] = (Inr ?resp, 1)"
    by (simp add: echo_executor_def sample_state_def)
  have m: "map_of ?resp ''output'' = Some (PyStr ''answer'')" by simp
  have d: "''quit'' @ [CHR 0xA0] = [] @ ''quit'' @ [CHR 0xA0]" by simp
  have ne: "[] @ [CHR 0xA0] \<noteq> []" by simp
  note t1 = quit_check_does_not_strip[where line = "''quit ''" and ex = echo_executor
      and s = sample_state and rest = "[''quit'']" and response = ?resp and w = 1
      and v = "PyStr ''answer''", OF disjI1[OF conjI[OF p n]]]
  note t2 = quit_check_does_not_strip[where line = "''quit'' @ [CHR 0xA0]" and pre = "[]"
      and core = "''quit''" and suf = "[CHR 0xA0]" and ex = echo_executor
      and s = sample_state and rest = "[''quit'']", OF disjI2[OF conjI[OF d conjI[OF q ne]]]]
  from t1 have a: "py_lower ''quit '' \<noteq> ''quit''" by blast
  from t1[THEN conjunct2, THEN conjunct2, THEN conjunct2, THEN mp, OF conjI[OF e m]]
  have b: "main_loop echo_executor sample_state [''quit '', ''quit''] =
     main_loop echo_executor
       ((emit [Output ask_prompt, ReadLine ''quit '', Invoke [(''input'', PyStr ''quit '')],
               Output (response_label @ '' answer'' @ [CHR 0x0A])] sample_state)\<lparr>world := 1\<rparr>)
       [''quit'']" by simp
  from t2 have c: "py_lower (''quit'' @ [CHR 0xA0]) \<noteq> ''quit''" by blast
  from t2 have f: "\<exists>tl. trace (snd (main_loop echo_executor sample_state [''quit'' @ [CHR 0xA0], ''quit''])) =
      trace sample_state @
      [Output ask_prompt, ReadLine (''quit'' @ [CHR 0xA0]),
       Invoke [(''input'', PyStr (''quit'' @ [CHR 0xA0]))]] @ tl" by blast
  from s s2 a b c f show ?thesis by blast
qed

text \<open>
  Claim C8. The configuration is never changed after it was loaded: the loop and
  \<^verbatim>\<open>main\<close> leave it as it is, and at the end of the process it is the one start-up
  read from the environment.
\<close>
theorem config_immutable:
  "cfg (snd (main_loop ex s lines)) = cfg s \<and>
   cfg (snd (main ex s lines)) = cfg s \<and>
   fst (snd (script dotenv env0 assemble ex lines)) = fst (load_config (load_dotenv dotenv env0))"
  by (simp only: main_loop_cfg main_cfg script_cfg simp_thms)

theorem config_immutable_witness:
  "cfg (snd (main_loop flaky_executor sample_state [''hello'', ''again''])) = sample_cfg \<and>
   cfg (snd (main echo_executor sample_state [''hello'', ''quit''])) = sample_cfg \<and>
   fst (snd (script sample_dotenv Map.empty (\<lambda>c. Inr 0) echo_executor [''hello'', ''quit''])) =
     sample_cfg"
proof -
  have c: "fst (load_config (load_dotenv sample_dotenv Map.empty)) = sample_cfg"
    by (simp add: load_config_def load_dotenv_def getenv_def sample_dotenv_def sample_cfg_def)
  have s: "cfg sample_state = sample_cfg" by (simp add: sample_state_def)
  from config_immutable[of flaky_executor sample_state "[''hello'', ''again'']"]
    config_immutable[of echo_executor sample_state "[''hello'', ''quit'']" sample_dotenv Map.empty
      "\<lambda>c. Inr 0"] c s
  show ?thesis by simp
qed

subsection \<open>The date and time tool and the encyclopedia tool\<close>

lemma of_char_digit_char: "d < 10 \<Longrightarrow> (of_char (digit_char d) :: nat) = 48 + d"
  by (simp add: digit_char_def)

lemma is_digit_digit_char: "d < 10 \<Longrightarrow> is_digit (digit_char d)"
  by (simp add: is_digit_def of_char_digit_char)

lemma digit_val_digit_char: "d < 10 \<Longrightarrow> digit_val (digit_char d) = d"
  by (simp add: digit_val_def of_char_digit_char)

lemma num_of_snoc: "num_of (ds @ [c]) = 10 * num_of ds + digit_val c"
  by (simp add: num_of_def)

lemma digits_of_digits: "list_all is_digit (digits_of n)"
proof (induction n rule: digits_of.induct)
  case (1 n)
  show ?case
  proof (cases "n < 10")
    case True
    then show ?thesis by (subst digits_of.simps) (simp add: is_digit_digit_char)
  next
    case False
    with 1 show ?thesis by (subst digits_of.simps) (simp add: is_digit_digit_char)
  qed
qed

lemma num_of_digits_of: "num_of (digits_of n) = n"
proof (induction n rule: digits_of.induct)
  case (1 n)
  show ?case
  proof (cases "n < 10")
    case True
    then show ?thesis by (subst digits_of.simps) (simp add: num_of_def digit_val_digit_char)
  next
    case False
    with 1 show ?thesis by (subst digits_of.simps) (simp add: num_of_snoc digit_val_digit_char)
  qed
qed

lemma length_digits_of: "n < 10 ^ w \<Longrightarrow> 0 < w \<Longrightarrow> length (digits_of n) \<le> w"
proof (induction w arbitrary: n)
  case 0
  then show ?case by simp
next
  case (Suc w)
  show ?case
  proof (cases "n < 10")
    case True
    then show ?thesis by (subst digits_of.simps) simp
  next
    case False
    from Suc.prems have lt: "n div 10 < 10 ^ w" by (simp add: less_mult_imp_div_less mult.commute)
    from False lt have "0 < w" by (cases w) auto
    with Suc.IH[OF lt] have "length (digits_of (n div 10)) \<le> w" .
    with False show ?thesis by (subst digits_of.simps) simp
  qed
qed

lemma num_of_zeros: "num_of (replicate k (CHR ''0'') @ ds) = num_of ds"
  by (induction k) (simp_all add: num_of_def digit_val_def)

lemma is_digit_0: "is_digit (CHR ''0'')"
  by (simp add: is_digit_def)

lemma length_fmt_d: "n < 10 ^ w \<Longrightarrow> 0 < w \<Longrightarrow> length (fmt_d w n) = w"
  using length_digits_of[of n w] by (simp add: fmt_d_def Let_def)

lemma digits_fmt_d: "list_all is_digit (fmt_d w n)"
  using digits_of_digits[of n] by (auto simp: fmt_d_def Let_def list_all_iff is_digit_0)

lemma num_of_fmt_d: "num_of (fmt_d w n) = n"
  by (simp add: fmt_d_def Let_def num_of_zeros num_of_digits_of)

lemma take_num_fmt_d: "n < 10 ^ w \<Longrightarrow> 0 < w \<Longrightarrow> take_num w (fmt_d w n @ rest) = Some (n, rest)"
  by (simp add: take_num_def length_fmt_d digits_fmt_d num_of_fmt_d)

lemma take_num_fmt_d_end: "n < 10 ^ w \<Longrightarrow> 0 < w \<Longrightarrow> take_num w (fmt_d w n) = Some (n, [])"
  using take_num_fmt_d[of n w "[]"] by simp

lemma days_in_month_le: "days_in_month y m \<le> 31"
  by (simp add: days_in_month_def)

lemma expect_app: "expect c ([c] @ xs) = Some xs"
  by simp

lemma parse_iso_isoformat: "valid_datetime dt \<Longrightarrow> parse_iso (isoformat dt) = Some dt"
proof -
  assume v: "valid_datetime dt"
  have d: "day dt < 100"
    using v days_in_month_le[of "year dt" "month dt"] by (simp add: valid_datetime_def)
  have ty: "take_num 4 (fmt_d 4 (year dt) @ r) = Some (year dt, r)" for r
    using v by (simp add: take_num_fmt_d valid_datetime_def)
  have tmo: "take_num 2 (fmt_d 2 (month dt) @ r) = Some (month dt, r)" for r
    using v by (simp add: take_num_fmt_d valid_datetime_def)
  have td: "take_num 2 (fmt_d 2 (day dt) @ r) = Some (day dt, r)" for r
    using d by (simp add: take_num_fmt_d)
  have th: "take_num 2 (fmt_d 2 (hour dt) @ r) = Some (hour dt, r)" for r
    using v by (simp add: take_num_fmt_d valid_datetime_def)
  have tmi: "take_num 2 (fmt_d 2 (minute dt) @ r) = Some (minute dt, r)" for r
    using v by (simp add: take_num_fmt_d valid_datetime_def)
  have ts: "take_num 2 (fmt_d 2 (second dt) @ r) = Some (second dt, r)" for r
    using v by (simp add: take_num_fmt_d valid_datetime_def)
  have tus: "take_num 6 (fmt_d 6 (microsecond dt)) = Some (microsecond dt, [])"
    using v by (simp add: take_num_fmt_d_end valid_datetime_def)
  have frac: "parse_fraction (if microsecond dt = 0 then [] else ''.'' @ fmt_d 6 (microsecond dt))
                = Some (microsecond dt)"
    by (simp add: parse_fraction_def tus)
  have "parse_iso (isoformat dt) =
          (let dt' = \<lparr>year = year dt, month = month dt, day = day dt, hour = hour dt,
                      minute = minute dt, second = second dt, microsecond = microsecond dt\<rparr>
           in if valid_datetime dt' then Some dt' else None)"
    unfolding parse_iso_def isoformat_def
    by (simp only: ty tmo td th tmi ts frac expect_app Option.bind.simps prod.case)
  moreover have "\<lparr>year = year dt, month = month dt, day = day dt, hour = hour dt,
      minute = minute dt, second = second dt, microsecond = microsecond dt\<rparr> = dt"
    by (cases dt) simp
  ultimately show ?thesis using v by (simp add: Let_def)
qed

text \<open>
  Claim C4. Whatever its arguments, the date and time tool returns the clock reading in
  ISO format and does not raise; its result depends on nothing but the clock. For every
  value a \<^verbatim>\<open>datetime\<close> can hold, the string reads back as that same date and
  time in the ISO 8601 extended format.
\<close>
theorem datetime_tool:
  "get_current_datetime now args kwargs = Inr (PyStr (isoformat now)) \<and>
   get_current_datetime now args kwargs = get_current_datetime now [] [] \<and>
   (valid_datetime now \<longrightarrow> parse_iso (isoformat now) = Some now)"
  by (simp add: get_current_datetime_def parse_iso_isoformat)

theorem datetime_tool_witness:
  "valid_datetime sample_now \<and>
   get_current_datetime sample_now [PyStr ''what time is it''] [] =
     Inr (PyStr ''2026-11-03T07:05:09.000120'') \<and>
   parse_iso ''2026-11-03T07:05:09.000120'' = Some sample_now"
proof -
  have v: "valid_datetime sample_now"
    by (simp add: valid_datetime_def sample_now_def days_in_month_def)
  have i: "isoformat sample_now = ''2026-11-03T07:05:09.000120''"
    by code_simp
  from datetime_tool[of sample_now "[PyStr ''what time is it'']" "[]"] v i
  show ?thesis by simp
qed

lemma isinstance_Exception_iff:
  "isinstance e Exception \<longleftrightarrow>
     cls e \<noteq> BaseException \<and> cls e \<noteq> KeyboardInterrupt \<and> cls e \<noteq> SystemExit \<and>
     cls e \<noteq> CancelledError"
  by (cases "cls e") (simp_all add: isinstance_def issubclass_def)

lemma isinstance_PageError_iff: "isinstance e PageError \<longleftrightarrow> cls e = PageError"
  by (cases "cls e") (simp_all add: isinstance_def issubclass_def)

lemma isinstance_DisambiguationError_iff:
  "isinstance e DisambiguationError \<longleftrightarrow> cls e = DisambiguationError"
  by (cases "cls e") (simp_all add: isinstance_def issubclass_def)

lemma isinstance_key_error: "isinstance (key_error k) Exception"
  by (simp add: key_error_def isinstance_def issubclass_def)

lemma isinstance_index_error: "isinstance index_error Exception"
  by (simp add: index_error_def isinstance_def issubclass_def)

lemma wikipedia_disambiguation:
  "summary q = Inl e \<Longrightarrow> isinstance e DisambiguationError \<Longrightarrow>
     get_wikipedia_summary summary q = Inr (PyStr (''Disambiguation error: '' @ str_exn e))"
  by (simp add: get_wikipedia_summary_def)

lemma wikipedia_page_error:
  "summary q = Inl e \<Longrightarrow> isinstance e PageError \<Longrightarrow>
     get_wikipedia_summary summary q = Inr (PyStr ''Page not found.'')"
  by (simp add: get_wikipedia_summary_def isinstance_PageError_iff
        isinstance_DisambiguationError_iff)

lemma wikipedia_other:
  "summary q = Inl e \<Longrightarrow> isinstance e Exception \<Longrightarrow> \<not> isinstance e DisambiguationError \<Longrightarrow>
   \<not> isinstance e PageError \<Longrightarrow>
     get_wikipedia_summary summary q = Inr (PyStr (str_exn e))"
  by (simp add: get_wikipedia_summary_def)

lemma wikipedia_success:
  "summary q = Inr body \<Longrightarrow> get_wikipedia_summary summary q = Inr (PyStr body)"
  by (simp add: get_wikipedia_summary_def)

lemma wikipedia_uncaught:
  "summary q = Inl e \<Longrightarrow> \<not> isinstance e Exception \<Longrightarrow> get_wikipedia_summary summary q = Inl e"
  by (auto simp: get_wikipedia_summary_def isinstance_Exception_iff
        isinstance_PageError_iff isinstance_DisambiguationError_iff)

lemma wikipedia_returns:
  assumes "\<And>x. summary q = Inl x \<Longrightarrow> isinstance x Exception"
  shows "\<exists>t. get_wikipedia_summary summary q = Inr (PyStr t)"
proof (cases "summary q")
  case (Inl e)
  with assms have "isinstance e Exception" by blast
  with Inl show ?thesis
    by (cases "isinstance e DisambiguationError"; cases "isinstance e PageError")
       (simp_all add: get_wikipedia_summary_def)
next
  case (Inr body)
  then show ?thesis by (simp add: wikipedia_success)
qed

text \<open>
  Claim C2. The encyclopedia tool can raise: a lookup interrupted from the keyboard
  raises \<^verbatim>\<open>KeyboardInterrupt\<close>, which \<^verbatim>\<open>except Exception\<close> does not catch, and
  the exception leaves the tool.
\<close>
theorem wikipedia_tool_raises_counterexample:
  "get_wikipedia_summary interrupted_summary ''Mercury'' = Inl (Exn KeyboardInterrupt [])"
  by (simp add: get_wikipedia_summary_def interrupted_summary_def isinstance_def issubclass_def)

text \<open>
  Claim C2, as the script has it. For every query, the encyclopedia tool returns a
  string whenever the lookup returns or raises an instance of \<^verbatim>\<open>Exception\<close>: on a
  disambiguation error the text \<^verbatim>\<open>Disambiguation error: \<close> followed by the error's
  text, on a page error exactly \<^verbatim>\<open>Page not found.\<close>, on any other instance of
  \<^verbatim>\<open>Exception\<close> that exception's text, and on success the summary. An exception
  that is not an instance of \<^verbatim>\<open>Exception\<close> is not caught and leaves the tool.
\<close>
theorem wikipedia_tool_catches_exceptions:
  "(summary q = Inl e \<and> isinstance e DisambiguationError \<longrightarrow>
      get_wikipedia_summary summary q = Inr (PyStr (''Disambiguation error: '' @ str_exn e))) \<and>
   (summary q = Inl e \<and> isinstance e PageError \<longrightarrow>
      get_wikipedia_summary summary q = Inr (PyStr ''Page not found.'')) \<and>
   (summary q = Inl e \<and> isinstance e Exception \<and> \<not> isinstance e DisambiguationError \<and>
    \<not> isinstance e PageError \<longrightarrow>
      get_wikipedia_summary summary q = Inr (PyStr (str_exn e))) \<and>
   (summary q = Inr body \<longrightarrow> get_wikipedia_summary summary q = Inr (PyStr body)) \<and>
   (summary q = Inl e \<and> \<not> isinstance e Exception \<longrightarrow>
      get_wikipedia_summary summary q = Inl e) \<and>
   ((\<forall>x. summary q = Inl x \<longrightarrow> isinstance x Exception) \<longrightarrow>
      (\<exists>t. get_wikipedia_summary summary q = Inr (PyStr t)))"
proof (intro conjI impI)
  assume "\<forall>x. summary q = Inl x \<longrightarrow> isinstance x Exception"
  then show "\<exists>t. get_wikipedia_summary summary q = Inr (PyStr t)"
    using wikipedia_returns[of summary q] by blast
qed (simp_all add: wikipedia_disambiguation wikipedia_page_error wikipedia_other
      wikipedia_success wikipedia_uncaught)

theorem wikipedia_tool_catches_exceptions_witness:
  "get_wikipedia_summary sample_summary ''Mercury'' =
     Inr (PyStr ''Disambiguation error: Mercury may refer to: planet, element'') \<and>
   get_wikipedia_summary sample_summary ''qqqq'' = Inr (PyStr ''Page not found.'') \<and>
   get_wikipedia_summary sample_summary ''offline'' = Inr (PyStr ''connection failed'') \<and>
   get_wikipedia_summary sample_summary ''Isabelle'' = Inr (PyStr ''A summary.'') \<and>
   \<not> isinstance (Exn KeyboardInterrupt []) Exception \<and>
   get_wikipedia_summary interrupted_summary ''Isabelle'' = Inl (Exn KeyboardInterrupt []) \<and>
   (\<exists>t. get_wikipedia_summary sample_summary ''offline'' = Inr (PyStr t))"
proof -
  let ?d = "Exn DisambiguationError ''Mercury may refer to: planet, element''"
  let ?p = "Exn PageError ''Page id qqqq does not match any pages.''"
  let ?o = "Exn (OtherError ''ConnectionError'') ''connection failed''"
  let ?k = "Exn KeyboardInterrupt []"
  have s1: "sample_summary ''Mercury'' = Inl ?d" by (simp add: sample_summary_def)
  have s2: "sample_summary ''qqqq'' = Inl ?p" by (simp add: sample_summary_def)
  have s3: "sample_summary ''offline'' = Inl ?o" by (simp add: sample_summary_def)
  have s4: "sample_summary ''Isabelle'' = Inr ''A summary.''" by (simp add: sample_summary_def)
  have s5: "interrupted_summary ''Isabelle'' = Inl ?k" by (simp add: interrupted_summary_def)
  have i1: "isinstance ?d DisambiguationError" by (simp add: isinstance_def issubclass_def)
  have i2: "isinstance ?p PageError" by (simp add: isinstance_def issubclass_def)
  have i3: "isinstance ?o Exception \<and> \<not> isinstance ?o DisambiguationError \<and>
            \<not> isinstance ?o PageError"
    by (simp add: isinstance_def issubclass_def)
  have i5: "\<not> isinstance ?k Exception" by (simp add: isinstance_def issubclass_def)
  have all: "\<forall>x. sample_summary ''offline'' = Inl x \<longrightarrow> isinstance x Exception"
    using s3 i3 by simp
  note t1 = wikipedia_tool_catches_exceptions[where summary = sample_summary
      and q = "''Mercury''" and e = ?d]
  note t2 = wikipedia_tool_catches_exceptions[where summary = sample_summary
      and q = "''qqqq''" and e = ?p]
  note t3 = wikipedia_tool_catches_exceptions[where summary = sample_summary
      and q = "''offline''" and e = ?o]
  note t4 = wikipedia_tool_catches_exceptions[where summary = sample_summary
      and q = "''Isabelle''" and body = "''A summary.''"]
  note t5 = wikipedia_tool_catches_exceptions[where summary = interrupted_summary
      and q = "''Isabelle''" and e = ?k]
  from t1 s1 i1 have a: "get_wikipedia_summary sample_summary ''Mercury'' =
     Inr (PyStr ''Disambiguation error: Mercury may refer to: planet, element'')"
    by (simp add: str_exn_def)
  from t2 s2 i2 have b: "get_wikipedia_summary sample_summary ''qqqq'' = Inr (PyStr ''Page not found.'')"
    by blast
  from t3 s3 i3 have c: "get_wikipedia_summary sample_summary ''offline'' = Inr (PyStr ''connection failed'')"
    by (simp add: str_exn_def)
  from t4 s4 have d: "get_wikipedia_summary sample_summary ''Isabelle'' = Inr (PyStr ''A summary.'')"
    by blast
  from t5 s5 i5 have f: "get_wikipedia_summary interrupted_summary ''Isabelle'' = Inl ?k"
    by blast
  from t3 all have g: "\<exists>t. get_wikipedia_summary sample_summary ''offline'' = Inr (PyStr t)"
    by blast
  from a b c d i5 f g show ?thesis by blast
qed

subsection \<open>The knowledge base tool and start-up\<close>

lemma search_company_docs_eq:
  "search_company_docs c env mk_client create q =
     (case fst (search_body c env mk_client create q) of
        Inr v \<Rightarrow> Inr v
      | Inl e \<Rightarrow>
          if isinstance e Exception then Inr (PyStr (''Search error: '' @ str_exn e)) else Inl e,
      snd (search_body c env mk_client create q))"
  by (cases "search_body c env mk_client create q"; cases "fst (search_body c env mk_client create q)")
     (simp_all add: search_company_docs_def)

lemma search_body_no_client:
  "mk_client (endpoint c) (openai_api_key c) (api_version c) = Inl e \<Longrightarrow>
     search_body c env mk_client create q = (Inl e, [])"
  by (simp add: search_body_def)

lemma search_body_no_endpoint:
  "mk_client (endpoint c) (openai_api_key c) (api_version c) = Inr cl \<Longrightarrow>
   env ''AZURE_SEARCH_ENDPOINT'' = None \<Longrightarrow>
     search_body c env mk_client create q =
       (Inl (key_error ''AZURE_SEARCH_ENDPOINT''), [''AZURE_SEARCH_ENDPOINT''])"
  by (simp add: search_body_def environ_getitem_def)

lemma search_body_no_index:
  "mk_client (endpoint c) (openai_api_key c) (api_version c) = Inr cl \<Longrightarrow>
   env ''AZURE_SEARCH_ENDPOINT'' = Some ep \<Longrightarrow> env ''AZURE_SEARCH_INDEX'' = None \<Longrightarrow>
     search_body c env mk_client create q =
       (Inl (key_error ''AZURE_SEARCH_INDEX''), [''AZURE_SEARCH_ENDPOINT'', ''AZURE_SEARCH_INDEX''])"
  by (simp add: search_body_def environ_getitem_def)

lemma search_body_no_key:
  "mk_client (endpoint c) (openai_api_key c) (api_version c) = Inr cl \<Longrightarrow>
   env ''AZURE_SEARCH_ENDPOINT'' = Some ep \<Longrightarrow> env ''AZURE_SEARCH_INDEX'' = Some ix \<Longrightarrow>
   env ''AZURE_SEARCH_KEY'' = None \<Longrightarrow>
     search_body c env mk_client create q =
       (Inl (key_error ''AZURE_SEARCH_KEY''),
        [''AZURE_SEARCH_ENDPOINT'', ''AZURE_SEARCH_INDEX'', ''AZURE_SEARCH_KEY''])"
  by (simp add: search_body_def environ_getitem_def)

lemma search_body_request:
  "mk_client (endpoint c) (openai_api_key c) (api_version c) = Inr cl \<Longrightarrow>
   env ''AZURE_SEARCH_ENDPOINT'' = Some ep \<Longrightarrow> env ''AZURE_SEARCH_INDEX'' = Some ix \<Longrightarrow>
   env ''AZURE_SEARCH_KEY'' = Some k \<Longrightarrow>
     search_body c env mk_client create q =
       (case create cl (search_request c q ep ix k) of
          Inl e \<Rightarrow> Inl e
        | Inr completion \<Rightarrow>
            (case choices completion of
               [] \<Rightarrow> Inl index_error
             | ch # _ \<Rightarrow> Inr (content (message ch))),
        [''AZURE_SEARCH_ENDPOINT'', ''AZURE_SEARCH_INDEX'', ''AZURE_SEARCH_KEY''])"
  by (simp add: search_body_def environ_getitem_def split: sum.splits list.splits)

lemma search_returns:
  assumes "\<And>x. fst (search_body c env mk_client create q) = Inl x \<Longrightarrow> isinstance x Exception"
  shows "\<exists>v. fst (search_company_docs c env mk_client create q) = Inr v"
proof (cases "fst (search_body c env mk_client create q)")
  case (Inl e)
  with assms have "isinstance e Exception" by blast
  with Inl show ?thesis by (simp add: search_company_docs_eq)
next
  case (Inr v)
  then show ?thesis by (simp add: search_company_docs_eq)
qed

text \<open>
  Claim C3. The knowledge base tool can raise: a completion call interrupted from the
  keyboard raises \<^verbatim>\<open>KeyboardInterrupt\<close>, which \<^verbatim>\<open>except Exception\<close> does not
  catch, and the exception leaves the tool.
\<close>
theorem search_tool_raises_counterexample:
  "fst (search_company_docs sample_cfg sample_dotenv sample_mk_client interrupted_create
       ''leave policy'') = Inl (Exn KeyboardInterrupt [])"
  by (simp add: search_company_docs_def search_body_def environ_getitem_def sample_cfg_def
        sample_dotenv_def sample_mk_client_def interrupted_create_def isinstance_def
        issubclass_def)

text \<open>
  Claim C3, as the script has it. For every query, whatever instance of
  \<^verbatim>\<open>Exception\<close> the body of the \<^verbatim>\<open>try\<close> raises (the client constructor, a
  missing environment variable, the completion call, an empty list of choices), the
  knowledge base tool returns \<^verbatim>\<open>Search error: \<close> followed by the exception's text;
  on success it returns the content of the first choice's message. An exception that is
  not an instance of \<^verbatim>\<open>Exception\<close> is not caught and leaves the tool.
\<close>
theorem search_tool_catches_exceptions:
  "(fst (search_body c env mk_client create q) = Inl e \<and> isinstance e Exception \<longrightarrow>
      fst (search_company_docs c env mk_client create q) =
        Inr (PyStr (''Search error: '' @ str_exn e))) \<and>
   (fst (search_body c env mk_client create q) = Inr v \<longrightarrow>
      fst (search_company_docs c env mk_client create q) = Inr v) \<and>
   (fst (search_body c env mk_client create q) = Inl e \<and> \<not> isinstance e Exception \<longrightarrow>
      fst (search_company_docs c env mk_client create q) = Inl e) \<and>
   ((\<forall>x. fst (search_body c env mk_client create q) = Inl x \<longrightarrow> isinstance x Exception) \<longrightarrow>
      (\<exists>r. fst (search_company_docs c env mk_client create q) = Inr r)) \<and>
   (mk_client (endpoint c) (openai_api_key c) (api_version c) = Inl e \<and>
    isinstance e Exception \<longrightarrow>
      fst (search_company_docs c env mk_client create q) =
        Inr (PyStr (''Search error: '' @ str_exn e))) \<and>
   (mk_client (endpoint c) (openai_api_key c) (api_version c) = Inr cl \<and>
    env ''AZURE_SEARCH_ENDPOINT'' = None \<longrightarrow>
      fst (search_company_docs c env mk_client create q) =
        Inr (PyStr (''Search error: '' @ [CHR 0x27] @ ''AZURE_SEARCH_ENDPOINT'' @ [CHR 0x27]))) \<and>
   (mk_client (endpoint c) (openai_api_key c) (api_version c) = Inr cl \<and>
    env ''AZURE_SEARCH_ENDPOINT'' = Some ep \<and> env ''AZURE_SEARCH_INDEX'' = None \<longrightarrow>
      fst (search_company_docs c env mk_client create q) =
        Inr (PyStr (''Search error: '' @ [CHR 0x27] @ ''AZURE_SEARCH_INDEX'' @ [CHR 0x27]))) \<and>
   (mk_client (endpoint c) (openai_api_key c) (api_version c) = Inr cl \<and>
    env ''AZURE_SEARCH_ENDPOINT'' = Some ep \<and> env ''AZURE_SEARCH_INDEX'' = Some ix \<and>
    env ''AZURE_SEARCH_KEY'' = None \<longrightarrow>
      fst (search_company_docs c env mk_client create q) =
        Inr (PyStr (''Search error: '' @ [CHR 0x27] @ ''AZURE_SEARCH_KEY'' @ [CHR 0x27]))) \<and>
   (mk_client (endpoint c) (openai_api_key c) (api_version c) = Inr cl \<and>
    env ''AZURE_SEARCH_ENDPOINT'' = Some ep \<and> env ''AZURE_SEARCH_INDEX'' = Some ix \<and>
    env ''AZURE_SEARCH_KEY'' = Some k \<and>
    create cl (search_request c q ep ix k) = Inl e \<and> isinstance e Exception \<longrightarrow>
      fst (search_company_docs c env mk_client create q) =
        Inr (PyStr (''Search error: '' @ str_exn e))) \<and>
   (mk_client (endpoint c) (openai_api_key c) (api_version c) = Inr cl \<and>
    env ''AZURE_SEARCH_ENDPOINT'' = Some ep \<and> env ''AZURE_SEARCH_INDEX'' = Some ix \<and>
    env ''AZURE_SEARCH_KEY'' = Some k \<and>
    create cl (search_request c q ep ix k) = Inr completion \<and> choices completion = [] \<longrightarrow>
      fst (search_company_docs c env mk_client create q) =
        Inr (PyStr ''Search error: list index out of range'')) \<and>
   (mk_client (endpoint c) (openai_api_key c) (api_version c) = Inr cl \<and>
    env ''AZURE_SEARCH_ENDPOINT'' = Some ep \<and> env ''AZURE_SEARCH_INDEX'' = Some ix \<and>
    env ''AZURE_SEARCH_KEY'' = Some k \<and>
    create cl (search_request c q ep ix k) = Inr completion \<and> choices completion = ch # chs \<longrightarrow>
      fst (search_company_docs c env mk_client create q) = Inr (content (message ch)))"
proof (intro conjI impI)
  assume "\<forall>x. fst (search_body c env mk_client create q) = Inl x \<longrightarrow> isinstance x Exception"
  then show "\<exists>r. fst (search_company_docs c env mk_client create q) = Inr r"
    using search_returns[of c env mk_client create q] by blast
next
  assume "mk_client (endpoint c) (openai_api_key c) (api_version c) = Inr cl \<and>
    env ''AZURE_SEARCH_ENDPOINT'' = None"
  then show "fst (search_company_docs c env mk_client create q) =
        Inr (PyStr (''Search error: '' @ [CHR 0x27] @ ''AZURE_SEARCH_ENDPOINT'' @ [CHR 0x27]))"
    using isinstance_key_error[of "''AZURE_SEARCH_ENDPOINT''"]
    by (simp add: search_company_docs_eq search_body_no_endpoint str_exn_def key_error_def)
next
  assume "mk_client (endpoint c) (openai_api_key c) (api_version c) = Inr cl \<and>
    env ''AZURE_SEARCH_ENDPOINT'' = Some ep \<and> env ''AZURE_SEARCH_INDEX'' = None"
  then show "fst (search_company_docs c env mk_client create q) =
        Inr (PyStr (''Search error: '' @ [CHR 0x27] @ ''AZURE_SEARCH_INDEX'' @ [CHR 0x27]))"
    using isinstance_key_error[of "''AZURE_SEARCH_INDEX''"]
    by (simp add: search_company_docs_eq search_body_no_index str_exn_def key_error_def)
next
  assume "mk_client (endpoint c) (openai_api_key c) (api_version c) = Inr cl \<and>
    env ''AZURE_SEARCH_ENDPOINT'' = Some ep \<and> env ''AZURE_SEARCH_INDEX'' = Some ix \<and>
    env ''AZURE_SEARCH_KEY'' = None"
  then show "fst (search_company_docs c env mk_client create q) =
        Inr (PyStr (''Search error: '' @ [CHR 0x27] @ ''AZURE_SEARCH_KEY'' @ [CHR 0x27]))"
    using isinstance_key_error[of "''AZURE_SEARCH_KEY''"]
    by (simp add: search_company_docs_eq search_body_no_key str_exn_def key_error_def)
next
  assume "mk_client (endpoint c) (openai_api_key c) (api_version c) = Inr cl \<and>
    env ''AZURE_SEARCH_ENDPOINT'' = Some ep \<and> env ''AZURE_SEARCH_INDEX'' = Some ix \<and>
    env ''AZURE_SEARCH_KEY'' = Some k \<and>
    create cl (search_request c q ep ix k) = Inr completion \<and> choices completion = []"
  then show "fst (search_company_docs c env mk_client create q) =
        Inr (PyStr ''Search error: list index out of range'')"
    using isinstance_index_error
    by (simp add: search_company_docs_eq search_body_request str_exn_def index_error_def)
qed (simp_all add: search_company_docs_eq search_body_no_client search_body_request)

theorem search_tool_catches_exceptions_witness:
  "search_company_docs (sample_cfg\<lparr>openai_api_key := None\<rparr>) sample_dotenv sample_mk_client
       sample_create ''leave policy'' =
     (Inr (PyStr ''Search error: Missing credentials''), []) \<and>
   fst (search_company_docs sample_cfg Map.empty sample_mk_client sample_create ''leave policy'') =
     Inr (PyStr (''Search error: '' @ [CHR 0x27] @ ''AZURE_SEARCH_ENDPOINT'' @ [CHR 0x27])) \<and>
   fst (search_company_docs sample_cfg sample_dotenv sample_mk_client sample_create ''leave policy'') =
     Inr (PyStr ''searched https://search.example/'') \<and>
   \<not> isinstance (Exn KeyboardInterrupt []) Exception \<and>
   fst (search_company_docs sample_cfg sample_dotenv sample_mk_client interrupted_create
       ''leave policy'') = Inl (Exn KeyboardInterrupt [])"
proof -
  let ?e = "Exn (OtherError ''OpenAIError'') ''Missing credentials''"
  let ?k = "Exn KeyboardInterrupt []"
  let ?c0 = "sample_cfg\<lparr>openai_api_key := None\<rparr>"
  let ?comp = "\<lparr>choices = [\<lparr>message = \<lparr>content = PyStr ''searched https://search.example/''\<rparr>\<rparr>]\<rparr>"
  have m0: "sample_mk_client (endpoint ?c0) (openai_api_key ?c0) (api_version ?c0) = Inl ?e"
    by (simp add: sample_mk_client_def)
  have ie: "isinstance ?e Exception" by (simp add: isinstance_def issubclass_def)
  have ik: "\<not> isinstance ?k Exception" by (simp add: isinstance_def issubclass_def)
  have m1: "sample_mk_client (endpoint sample_cfg) (openai_api_key sample_cfg)
              (api_version sample_cfg) = Inr 0"
    by (simp add: sample_mk_client_def sample_cfg_def)
  have e1: "sample_dotenv ''AZURE_SEARCH_ENDPOINT'' = Some ''https://search.example/''"
    and e2: "sample_dotenv ''AZURE_SEARCH_INDEX'' = Some ''margies-index''"
    and e3: "sample_dotenv ''AZURE_SEARCH_KEY'' = Some ''search-key''"
    by (simp_all add: sample_dotenv_def)
  have cr: "sample_create 0 (search_request sample_cfg ''leave policy'' ''https://search.example/''
              ''margies-index'' ''search-key'') = Inr ?comp"
    by (simp add: sample_create_def search_request_def)
  have ch: "choices ?comp = \<lparr>message = \<lparr>content = PyStr ''searched https://search.example/''\<rparr>\<rparr> # []"
    by simp
  have r0: "snd (search_company_docs ?c0 sample_dotenv sample_mk_client sample_create ''leave policy'') = []"
    using m0 by (simp add: search_company_docs_eq search_body_no_client)
  have bk: "fst (search_body sample_cfg sample_dotenv sample_mk_client interrupted_create
              ''leave policy'') = Inl ?k"
    using m1 e1 e2 e3 by (simp add: search_body_request interrupted_create_def)
  note t0 = search_tool_catches_exceptions[where c = ?c0 and env = sample_dotenv
      and mk_client = sample_mk_client and create = sample_create and q = "''leave policy''"
      and e = ?e]
  note t1 = search_tool_catches_exceptions[where c = sample_cfg and env = Map.empty
      and mk_client = sample_mk_client and create = sample_create and q = "''leave policy''"
      and cl = 0]
  note t2 = search_tool_catches_exceptions[where c = sample_cfg and env = sample_dotenv
      and mk_client = sample_mk_client and create = sample_create and q = "''leave policy''"
      and cl = 0 and ep = "''https://search.example/''" and ix = "''margies-index''"
      and k = "''search-key''" and completion = ?comp
      and ch = "\<lparr>message = \<lparr>content = PyStr ''searched https://search.example/''\<rparr>\<rparr>"
      and chs = "[]"]
  note t3 = search_tool_catches_exceptions[where c = sample_cfg and env = sample_dotenv
      and mk_client = sample_mk_client and create = interrupted_create
      and q = "''leave policy''" and e = ?k]
  from t0 m0 ie have "fst (search_company_docs ?c0 sample_dotenv sample_mk_client sample_create
       ''leave policy'') = Inr (PyStr (''Search error: '' @ str_exn ?e))" by blast
  with r0 have a: "search_company_docs ?c0 sample_dotenv sample_mk_client sample_create
       ''leave policy'' = (Inr (PyStr ''Search error: Missing credentials''), [])"
    by (simp add: str_exn_def prod_eq_iff)
  from t1 m1 have b: "fst (search_company_docs sample_cfg Map.empty sample_mk_client sample_create
       ''leave policy'') =
     Inr (PyStr (''Search error: '' @ [CHR 0x27] @ ''AZURE_SEARCH_ENDPOINT'' @ [CHR 0x27]))"
    by simp
  from t2 m1 e1 e2 e3 cr ch have c: "fst (search_company_docs sample_cfg sample_dotenv
       sample_mk_client sample_create ''leave policy'') =
     Inr (PyStr ''searched https://search.example/'')"
    by simp
  from t3 bk ik have d: "fst (search_company_docs sample_cfg sample_dotenv sample_mk_client
       interrupted_create ''leave policy'') = Inl ?k" by blast
  from a b c ik d show ?thesis by blast
qed

lemma search_reads:
  "snd (search_company_docs c env mk_client create q) =
     (case mk_client (endpoint c) (openai_api_key c) (api_version c) of
        Inl e \<Rightarrow> []
      | Inr cl \<Rightarrow>
          (case env ''AZURE_SEARCH_ENDPOINT'' of
             None \<Rightarrow> [''AZURE_SEARCH_ENDPOINT'']
           | Some ep \<Rightarrow>
               (case env ''AZURE_SEARCH_INDEX'' of
                  None \<Rightarrow> [''AZURE_SEARCH_ENDPOINT'', ''AZURE_SEARCH_INDEX'']
                | Some ix \<Rightarrow>
                    [''AZURE_SEARCH_ENDPOINT'', ''AZURE_SEARCH_INDEX'', ''AZURE_SEARCH_KEY''])))"
proof (cases "mk_client (endpoint c) (openai_api_key c) (api_version c)")
  case (Inl e)
  then show ?thesis by (simp add: search_company_docs_eq search_body_no_client)
next
  case cl: (Inr cl)
  show ?thesis
  proof (cases "env ''AZURE_SEARCH_ENDPOINT''")
    case None
    with cl show ?thesis by (simp add: search_company_docs_eq search_body_no_endpoint)
  next
    case ep: (Some ep)
    show ?thesis
    proof (cases "env ''AZURE_SEARCH_INDEX''")
      case None
      with cl ep show ?thesis by (simp add: search_company_docs_eq search_body_no_index)
    next
      case ix: (Some ix)
      show ?thesis
      proof (cases "env ''AZURE_SEARCH_KEY''")
        case None
        with cl ep ix show ?thesis by (simp add: search_company_docs_eq search_body_no_key)
      next
        case (Some k)
        with cl ep ix show ?thesis by (simp add: search_company_docs_eq search_body_request)
      qed
    qed
  qed
qed

text \<open>
  Claim C6. Not every call of the knowledge base tool reads the three search settings.
  With no search setting in the environment the call reads the first name only, and a
  call whose client constructor raises reads none.
\<close>
theorem search_reads_counterexample:
  "snd (search_company_docs sample_cfg Map.empty sample_mk_client sample_create ''leave policy'') =
     [''AZURE_SEARCH_ENDPOINT''] \<and>
   snd (search_company_docs (sample_cfg\<lparr>openai_api_key := None\<rparr>) sample_dotenv sample_mk_client
          sample_create ''leave policy'') = []"
  by (simp add: search_reads sample_mk_client_def sample_cfg_def)

text \<open>
  Claim C6, as the script has it. The knowledge base tool takes the search settings
  from the environment it is called in, never from values kept since start-up. In every
  call, once the client is constructed, it reads \<^verbatim>\<open>AZURE_SEARCH_ENDPOINT\<close>, then
  \<^verbatim>\<open>AZURE_SEARCH_INDEX\<close>, then \<^verbatim>\<open>AZURE_SEARCH_KEY\<close>, and stops at the first
  that is missing; a call whose client constructor raises reads none. When the three
  are set, the data source of the request carries the values of the call's
  environment.
\<close>
theorem search_reads_at_call_time:
  "snd (search_company_docs c env mk_client create q) =
     (case mk_client (endpoint c) (openai_api_key c) (api_version c) of
        Inl e \<Rightarrow> []
      | Inr cl \<Rightarrow>
          (case env ''AZURE_SEARCH_ENDPOINT'' of
             None \<Rightarrow> [''AZURE_SEARCH_ENDPOINT'']
           | Some ep \<Rightarrow>
               (case env ''AZURE_SEARCH_INDEX'' of
                  None \<Rightarrow> [''AZURE_SEARCH_ENDPOINT'', ''AZURE_SEARCH_INDEX'']
                | Some ix \<Rightarrow>
                    [''AZURE_SEARCH_ENDPOINT'', ''AZURE_SEARCH_INDEX'', ''AZURE_SEARCH_KEY'']))) \<and>
   (mk_client (endpoint c) (openai_api_key c) (api_version c) = Inr cl \<and>
    env ''AZURE_SEARCH_ENDPOINT'' = Some ep \<and> env ''AZURE_SEARCH_INDEX'' = Some ix \<and>
    env ''AZURE_SEARCH_KEY'' = Some k \<longrightarrow>
      snd (search_company_docs c env mk_client create q) =
        [''AZURE_SEARCH_ENDPOINT'', ''AZURE_SEARCH_INDEX'', ''AZURE_SEARCH_KEY''] \<and>
      fst (search_company_docs c env mk_client create q) =
        (case create cl (search_request c q ep ix k) of
           Inl e \<Rightarrow>
             if isinstance e Exception then Inr (PyStr (''Search error: '' @ str_exn e))
             else Inl e
         | Inr completion \<Rightarrow>
             (case choices completion of
                [] \<Rightarrow> Inr (PyStr ''Search error: list index out of range'')
              | ch # _ \<Rightarrow> Inr (content (message ch)))) \<and>
      req_data_sources (search_request c q ep ix k) =
        [\<lparr>ds_type = ''azure_search'', ds_endpoint = ep, ds_index_name = ix,
          ds_auth_type = ''api_key'', ds_auth_key = k\<rparr>])"
proof (intro conjI impI)
  show "snd (search_company_docs c env mk_client create q) =
     (case mk_client (endpoint c) (openai_api_key c) (api_version c) of
        Inl e \<Rightarrow> []
      | Inr cl \<Rightarrow>
          (case env ''AZURE_SEARCH_ENDPOINT'' of
             None \<Rightarrow> [''AZURE_SEARCH_ENDPOINT'']
           | Some ep \<Rightarrow>
               (case env ''AZURE_SEARCH_INDEX'' of
                  None \<Rightarrow> [''AZURE_SEARCH_ENDPOINT'', ''AZURE_SEARCH_INDEX'']
                | Some ix \<Rightarrow>
                    [''AZURE_SEARCH_ENDPOINT'', ''AZURE_SEARCH_INDEX'', ''AZURE_SEARCH_KEY''])))"
    by (rule search_reads)
next
  assume a: "mk_client (endpoint c) (openai_api_key c) (api_version c) = Inr cl \<and>
    env ''AZURE_SEARCH_ENDPOINT'' = Some ep \<and> env ''AZURE_SEARCH_INDEX'' = Some ix \<and>
    env ''AZURE_SEARCH_KEY'' = Some k"
  then show "snd (search_company_docs c env mk_client create q) =
        [''AZURE_SEARCH_ENDPOINT'', ''AZURE_SEARCH_INDEX'', ''AZURE_SEARCH_KEY'']"
    by (simp add: search_reads)
  show "fst (search_company_docs c env mk_client create q) =
        (case create cl (search_request c q ep ix k) of
           Inl e \<Rightarrow>
             if isinstance e Exception then Inr (PyStr (''Search error: '' @ str_exn e))
             else Inl e
         | Inr completion \<Rightarrow>
             (case choices completion of
                [] \<Rightarrow> Inr (PyStr ''Search error: list index out of range'')
              | ch # _ \<Rightarrow> Inr (content (message ch))))"
  proof (cases "create cl (search_request c q ep ix k)")
    case (Inl e)
    with a show ?thesis by (simp add: search_company_docs_eq search_body_request)
  next
    case (Inr completion)
    show ?thesis
    proof (cases "choices completion")
      case Nil
      have "str_exn index_error = ''list index out of range''"
        by (simp add: str_exn_def index_error_def)
      with a Inr Nil isinstance_index_error show ?thesis
        by (simp add: search_company_docs_eq search_body_request)
    next
      case (Cons ch chs)
      with a Inr show ?thesis by (simp add: search_company_docs_eq search_body_request)
    qed
  qed
  show "req_data_sources (search_request c q ep ix k) =
        [\<lparr>ds_type = ''azure_search'', ds_endpoint = ep, ds_index_name = ix,
          ds_auth_type = ''api_key'', ds_auth_key = k\<rparr>]"
    by (simp add: search_request_def)
qed

theorem search_reads_at_call_time_witness:
  "fst (snd (startup sample_dotenv Map.empty)) = sample_cfg \<and>
   sample_dotenv ''AZURE_SEARCH_ENDPOINT'' = Some ''https://search.example/'' \<and>
   changed_env ''AZURE_SEARCH_ENDPOINT'' = Some ''https://other.example/'' \<and>
   search_company_docs (fst (snd (startup sample_dotenv Map.empty))) changed_env sample_mk_client
       sample_create ''leave policy'' =
     (Inr (PyStr ''searched https://other.example/''),
      [''AZURE_SEARCH_ENDPOINT'', ''AZURE_SEARCH_INDEX'', ''AZURE_SEARCH_KEY'']) \<and>
   snd (search_company_docs sample_cfg Map.empty sample_mk_client sample_create ''leave policy'') =
     [''AZURE_SEARCH_ENDPOINT'']"
proof -
  have c: "fst (snd (startup sample_dotenv Map.empty)) = sample_cfg"
    by (simp add: startup_eq load_config_def load_dotenv_def getenv_def sample_dotenv_def
          sample_cfg_def)
  have m1: "sample_mk_client (endpoint sample_cfg) (openai_api_key sample_cfg)
              (api_version sample_cfg) = Inr 0"
    by (simp add: sample_mk_client_def sample_cfg_def)
  have e0: "sample_dotenv ''AZURE_SEARCH_ENDPOINT'' = Some ''https://search.example/''"
    by (simp add: sample_dotenv_def)
  have e1: "changed_env ''AZURE_SEARCH_ENDPOINT'' = Some ''https://other.example/''"
    and e2: "changed_env ''AZURE_SEARCH_INDEX'' = Some ''other-index''"
    and e3: "changed_env ''AZURE_SEARCH_KEY'' = Some ''other-key''"
    by (simp_all add: changed_env_def)
  note t1 = search_reads_at_call_time[where mk_client = sample_mk_client
      and c = sample_cfg and cl = 0 and env = changed_env and create = sample_create
      and q = "''leave policy''" and ep = "''https://other.example/''"
      and ix = "''other-index''" and k = "''other-key''"]
  note t2 = search_reads_at_call_time[where mk_client = sample_mk_client
      and c = sample_cfg and env = Map.empty and create = sample_create
      and q = "''leave policy''"]
  from t1[THEN conjunct2, THEN mp, OF conjI[OF m1 conjI[OF e1 conjI[OF e2 e3]]]]
  have a: "search_company_docs sample_cfg changed_env sample_mk_client sample_create ''leave policy'' =
     (Inr (PyStr ''searched https://other.example/''),
      [''AZURE_SEARCH_ENDPOINT'', ''AZURE_SEARCH_INDEX'', ''AZURE_SEARCH_KEY''])"
    by (simp add: sample_create_def prod_eq_iff)
  from t2[THEN conjunct1] m1
  have b: "snd (search_company_docs sample_cfg Map.empty sample_mk_client sample_create
             ''leave policy'') = [''AZURE_SEARCH_ENDPOINT'']" by simp
  from a b c e0 e1 show ?thesis by simp
qed

text \<open>
  Claim C10. When the completion call succeeds and the content of the first choice's
  message is \<^verbatim>\<open>None\<close>, the knowledge base tool returns \<^verbatim>\<open>None\<close>, which is
  not a string.
\<close>
theorem search_tool_null_content:
  "mk_client (endpoint c) (openai_api_key c) (api_version c) = Inr cl \<Longrightarrow>
   env ''AZURE_SEARCH_ENDPOINT'' = Some ep \<Longrightarrow> env ''AZURE_SEARCH_INDEX'' = Some ix \<Longrightarrow>
   env ''AZURE_SEARCH_KEY'' = Some k \<Longrightarrow>
   create cl (search_request c q ep ix k) = Inr completion \<Longrightarrow>
   choices completion = ch # chs \<Longrightarrow> content (message ch) = PyNone \<Longrightarrow>
     fst (search_company_docs c env mk_client create q) = Inr PyNone \<and>
     \<not> (\<exists>s. fst (search_company_docs c env mk_client create q) = Inr (PyStr s))"
  by (simp add: search_company_docs_eq search_body_request)

theorem search_tool_null_content_witness:
  "fst (search_company_docs sample_cfg sample_dotenv sample_mk_client null_content_create
       ''leave policy'') = Inr PyNone \<and>
   \<not> is_str PyNone"
proof -
  let ?comp = "\<lparr>choices = [\<lparr>message = \<lparr>content = PyNone\<rparr>\<rparr>]\<rparr>"
  have m1: "sample_mk_client (endpoint sample_cfg) (openai_api_key sample_cfg)
              (api_version sample_cfg) = Inr 0"
    by (simp add: sample_mk_client_def sample_cfg_def)
  have e1: "sample_dotenv ''AZURE_SEARCH_ENDPOINT'' = Some ''https://search.example/''"
    and e2: "sample_dotenv ''AZURE_SEARCH_INDEX'' = Some ''margies-index''"
    and e3: "sample_dotenv ''AZURE_SEARCH_KEY'' = Some ''search-key''"
    by (simp_all add: sample_dotenv_def)
  have cr: "null_content_create 0 (search_request sample_cfg ''leave policy''
              ''https://search.example/'' ''margies-index'' ''search-key'') = Inr ?comp"
    by (simp add: null_content_create_def)
  have ch: "choices ?comp = \<lparr>message = \<lparr>content = PyNone\<rparr>\<rparr> # []" by simp
  have co: "content (message \<lparr>message = \<lparr>content = PyNone\<rparr>\<rparr>) = PyNone" by simp
  from search_tool_null_content[where mk_client = sample_mk_client and c = sample_cfg
      and cl = 0 and env = sample_dotenv and create = null_content_create
      and q = "''leave policy''", OF m1 e1 e2 e3 cr ch co]
  show ?thesis by simp
qed

text \<open>
  Claim C5. Start-up does not read five or six settings from the environment. With all
  six names of the script's head comment set, it reads three, and the search settings
  are not among them.
\<close>
theorem startup_reads_counterexample:
  "length (snd (snd (startup sample_dotenv Map.empty))) = 3 \<and>
   \<not> set [''AZURE_OAI_ENDPOINT'', ''AZURE_OAI_KEY'', ''AZURE_OAI_DEPLOYMENT'',
          ''AZURE_SEARCH_ENDPOINT'', ''AZURE_SEARCH_KEY'', ''AZURE_SEARCH_INDEX'']
      \<subseteq> set (snd (snd (startup sample_dotenv Map.empty)))"
  by (simp add: startup_eq load_config_def getenv_def)

text \<open>
  Claim C5, as the script has it. Start-up reads three settings from the environment,
  after the \<^verbatim>\<open>.env\<close> file was merged into it: the key, the deployment name and
  the end point of the model, in that order. The API version is the fixed text
  \<^verbatim>\<open>2024-02-01\<close>.
\<close>

theorem startup_reads_three:
  "snd (snd (startup dotenv env0)) =
     [''AZURE_OAI_KEY'', ''AZURE_OAI_DEPLOYMENT'', ''AZURE_OAI_ENDPOINT''] \<and>
   fst (snd (startup dotenv env0)) =
     \<lparr>openai_api_key = (dotenv ++ env0) ''AZURE_OAI_KEY'',
      deployment = (dotenv ++ env0) ''AZURE_OAI_DEPLOYMENT'',
      endpoint = (dotenv ++ env0) ''AZURE_OAI_ENDPOINT'',
      api_version = ''2024-02-01''\<rparr> \<and>
   fst (startup dotenv env0) = dotenv ++ env0"
  by (simp add: startup_eq load_config_def getenv_def load_dotenv_def)

theorem startup_reads_three_witness:
  "snd (snd (startup sample_dotenv Map.empty)) =
     [''AZURE_OAI_KEY'', ''AZURE_OAI_DEPLOYMENT'', ''AZURE_OAI_ENDPOINT''] \<and>
   fst (snd (startup sample_dotenv Map.empty)) = sample_cfg"
  using startup_reads_three[of sample_dotenv Map.empty]
  by (simp add: sample_dotenv_def sample_cfg_def)

end
